theory Spec2Isabelle
  imports Complex_Main
begin

section \<open>packages/cli/src/commands/publish/npm-utils.ts\<close>

text \<open>
  A shallow embedding of the publish helpers of the changesets command line tool.
  Everything the module imports from other packages (\<^verbatim>\<open>spawndamnit\<close>,
  \<^verbatim>\<open>preferred-pm\<close>, \<^verbatim>\<open>semver\<close>, the built-in \<^verbatim>\<open>JSON.parse\<close>, the prompt
  helper \<^verbatim>\<open>askQuestion\<close>, the \<^verbatim>\<open>isCI\<close> flag, \<^verbatim>\<open>process.env\<close>) is a field of
  the record \<open>world\<close>; every effect (spawned processes, log lines, prompts, gate
  admissions) is appended to the world's trace, and a reply of the outside world may
  depend on everything that happened before it. The limiter of \<^verbatim>\<open>p-limit\<close> is not
  part of the sources either: a call admitted by a gate is an \<open>Enter\<close> and a \<open>Leave\<close>
  event of the trace, and the gate itself is modelled from the specification.
  Strings are lists of 8-bit characters (the Latin-1 range of JavaScript's code units).
\<close>

subsection \<open>JavaScript values\<close>

datatype json =
    JNull
  | JBool bool
  | JNumber rat
  | JString string
  | JArray "json list"
  | JObject "(string \<times> json) list"

text \<open>A value read from parsed JSON; \<open>None\<close> is JavaScript's \<^verbatim>\<open>undefined\<close>.\<close>

type_synonym jsval = "json option"

datatype js_error =
    SyntaxError
  | TypeError
  | ExitError nat
  | Rejection string

text \<open>A promise that has settled: \<^verbatim>\<open>await\<close> yields the value or throws the reason.\<close>

datatype 'a promise = Resolved 'a | Rejected js_error

text \<open>Truthiness, as \<^verbatim>\<open>!x\<close> and \<^verbatim>\<open>if (x)\<close> read it.\<close>

fun truthy :: "jsval \<Rightarrow> bool" where
  "truthy None = False"
| "truthy (Some JNull) = False"
| "truthy (Some (JBool b)) = b"
| "truthy (Some (JNumber n)) = (n \<noteq> 0)"
| "truthy (Some (JString s)) = (s \<noteq> [])"
| "truthy (Some (JArray xs)) = True"
| "truthy (Some (JObject fs)) = True"

text \<open>
  \<^verbatim>\<open>v?.k\<close>, for the property names this module reads (\<^verbatim>\<open>error\<close>, \<^verbatim>\<open>code\<close>,
  \<^verbatim>\<open>summary\<close>, \<^verbatim>\<open>detail\<close>, \<^verbatim>\<open>tfa\<close>, \<^verbatim>\<open>mode\<close>), none of which a prototype
  defines: an object yields its own property, \<^verbatim>\<open>null\<close> and \<^verbatim>\<open>undefined\<close> yield
  \<^verbatim>\<open>undefined\<close>, and so does every other value.
\<close>

fun property :: "jsval \<Rightarrow> string \<Rightarrow> jsval" where
  "property (Some (JObject fs)) k = map_of fs k"
| "property v k = None"

text \<open>\<^verbatim>\<open>v.k\<close>: a TypeError on \<^verbatim>\<open>null\<close> and \<^verbatim>\<open>undefined\<close>.\<close>

fun getProp :: "jsval \<Rightarrow> string \<Rightarrow> js_error + jsval" where
  "getProp None k = Inl TypeError"
| "getProp (Some JNull) k = Inl TypeError"
| "getProp v k = Inr (property v k)"

text \<open>\<^verbatim>\<open>String.prototype.includes\<close>: the needle occurs as a contiguous substring.\<close>

fun starts_with :: "string \<Rightarrow> string \<Rightarrow> bool" where
  "starts_with s [] = True"
| "starts_with [] (c # cs) = False"
| "starts_with (x # xs) (c # cs) = (x = c \<and> starts_with xs cs)"

fun str_includes :: "string \<Rightarrow> string \<Rightarrow> bool" where
  "str_includes [] needle = (needle = [])"
| "str_includes (x # xs) needle = (starts_with (x # xs) needle \<or> str_includes xs needle)"

text \<open>
  \<^verbatim>\<open>v.includes(needle)\<close> on a value read from JSON: a string searches for a substring,
  an array for an element; \<^verbatim>\<open>null\<close> and \<^verbatim>\<open>undefined\<close> have no properties and every
  other value has no callable \<^verbatim>\<open>includes\<close>, so the call throws a TypeError.
\<close>

fun js_includes :: "jsval \<Rightarrow> string \<Rightarrow> js_error + bool" where
  "js_includes (Some (JString s)) needle = Inr (str_includes s needle)"
| "js_includes (Some (JArray xs)) needle = Inr (JString needle \<in> set xs)"
| "js_includes v needle = Inl TypeError"

text \<open>\<^verbatim>\<open>String.prototype.trim\<close> on the white space and line terminators below U+0100.\<close>

definition js_space :: "char \<Rightarrow> bool" where
  "js_space c = (c \<in> set [CHR 0x09, CHR 0x0A, CHR 0x0B, CHR 0x0C, CHR 0x0D, CHR 0x20, CHR 0xA0])"

definition trim :: "string \<Rightarrow> string" where
  "trim s = rev (dropWhile js_space (rev (dropWhile js_space s)))"

text \<open>
  \<^verbatim>\<open>s.replace(/[^{]*/, "")\<close>: the pattern has no \<^verbatim>\<open>g\<close> flag, so only its first match
  is replaced; the first match starts at index 0 and, the star being greedy, is the
  longest run of characters other than \<^verbatim>\<open>{\<close> (possibly empty).
\<close>

definition replace_non_brace_prefix :: "string \<Rightarrow> string" where
  "replace_non_brace_prefix s = drop (length (takeWhile (\<lambda>c. c \<noteq> CHR ''{'') s)) s"

subsection \<open>Data of the module\<close>

record PublishConfig =
  registry :: "string option"

record PackageJSON =
  name :: string
  publishConfig :: "PublishConfig option"

datatype PublishTool = Npm | Pnpm bool | Yarn bool

fun tool_name :: "PublishTool \<Rightarrow> string" where
  "tool_name Npm = ''npm''"
| "tool_name (Pnpm shouldAddNoGitChecks) = ''pnpm''"
| "tool_name (Yarn berry) = ''yarn''"

record TwoFactorState =
  token :: "string option"
  isRequired :: "bool promise"

record PublishOptions =
  cwd :: string
  access :: "string option"
  tag :: string

record PublishResult =
  published :: bool

record InfoResult = PublishResult +
  pkgInfo :: json

subsection \<open>The outside world\<close>

datatype gate = npmRequestLimit | npmPublishLimit | otpAskLimit

text \<open>The capacities given to \<^verbatim>\<open>pLimit\<close>.\<close>

fun pLimit :: "gate \<Rightarrow> nat" where
  "pLimit npmRequestLimit = 40"
| "pLimit npmPublishLimit = 10"
| "pLimit otpAskLimit = 1"

datatype level = info | warn | error | console_error

datatype logpart = Text string | Value jsval

text \<open>
  \<open>Spawn command args cwd registry\<close>: a child process, with the \<^verbatim>\<open>cwd\<close> option and the
  \<^verbatim>\<open>npm_config_registry\<close> the call overrides in the child's environment, when given.
  \<open>Log\<close>: one call of a logger, the literal text and the interpolated values in order
  (the colours of \<^verbatim>\<open>chalk\<close> are left out).
\<close>

datatype event =
    Spawn string "string list" "string option" "string option"
  | Log level "logpart list"
  | AskQuestion string
  | Enter gate
  | Leave gate

record world =
  isCI :: bool
  npm_config_registry :: "string option"
  preferredPM :: "event list \<Rightarrow> string \<Rightarrow> js_error + string option"
  spawn :: "event list \<Rightarrow> js_error + string"
  semver_parse :: "string \<Rightarrow> nat option"
  JSON_parse :: "string \<Rightarrow> json option"
  askQuestion :: "event list \<Rightarrow> string"
  whileQueued :: "event list \<Rightarrow> TwoFactorState \<Rightarrow> TwoFactorState"
  trace :: "event list"

text \<open>
  \<^item> \<open>preferredPM w tr dir\<close>: the name \<^verbatim>\<open>preferred-pm\<close> reports for \<open>dir\<close> (\<open>None\<close> when it
    reports nothing), or the reason it rejects with;
  \<^item> \<open>spawn w tr\<close>: what the child process started by the last event of \<open>tr\<close> writes to
    its standard output, or the reason \<^verbatim>\<open>spawndamnit\<close> rejects with (the exit code is
    not an error and the module never reads it);
  \<^item> \<open>semver_parse w s\<close>: the \<^verbatim>\<open>major\<close> of \<^verbatim>\<open>semver.parse(s)\<close>, \<open>None\<close> when that is
    \<^verbatim>\<open>null\<close>;
  \<^item> \<open>JSON_parse w s\<close>: \<^verbatim>\<open>JSON.parse(s)\<close>, \<open>None\<close> when it throws its SyntaxError;
  \<^item> \<open>askQuestion w tr\<close>: the line the operator types at the prompt that ends \<open>tr\<close>;
  \<^item> \<open>whileQueued w tr st\<close>: the shared two-factor state as the other callers leave it
    while this one waits to be admitted by the gate entered last in \<open>tr\<close>.
\<close>

definition emit :: "event \<Rightarrow> world \<Rightarrow> world" where
  "emit e w = w\<lparr>trace := trace w @ [e]\<rparr>"

subsection \<open>jsonParse, getCorrectRegistry, getPublishTool\<close>

definition jsonParse :: "string \<Rightarrow> world \<Rightarrow> (js_error + json) \<times> world" where
  "jsonParse input w =
    (case JSON_parse w input of
       Some v \<Rightarrow> (Inr v, w)
     | None \<Rightarrow> (Inl SyntaxError, emit (Log console_error [Text ''error parsing json:'', Text input]) w))"

text \<open>The second argument is \<^verbatim>\<open>process.env.npm_config_registry\<close>.\<close>

definition getCorrectRegistry :: "PackageJSON option \<Rightarrow> string option \<Rightarrow> string" where
  "getCorrectRegistry packageJson env_registry =
    (let reg =
       (case packageJson of
          None \<Rightarrow> env_registry
        | Some p \<Rightarrow>
            (case publishConfig p of
               None \<Rightarrow> env_registry
             | Some c \<Rightarrow> (case registry c of None \<Rightarrow> env_registry | Some r \<Rightarrow> Some r)))
     in case reg of
          None \<Rightarrow> ''https://registry.npmjs.org''
        | Some r \<Rightarrow>
            if r = [] \<or> r = ''https://registry.yarnpkg.com''
            then ''https://registry.npmjs.org''
            else r)"

definition getPublishTool :: "string \<Rightarrow> world \<Rightarrow> (js_error + PublishTool) \<times> world" where
  "getPublishTool dir w =
    (case preferredPM w (trace w) dir of
       Inl e \<Rightarrow> (Inl e, w)
     | Inr pm \<Rightarrow>
         if pm = Some ''pnpm'' then
           (let w1 = emit (Spawn ''pnpm'' [''--version''] (Some dir) None) w
            in case spawn w1 (trace w1) of
                 Inl e \<Rightarrow> (Inr (Pnpm False), w1)
               | Inr out \<Rightarrow>
                   (case semver_parse w1 (trim out) of
                      None \<Rightarrow> (Inr (Pnpm False), w1)
                    | Some major \<Rightarrow> (Inr (Pnpm (major \<ge> 5)), w1)))
         else if pm = Some ''yarn'' then
           (let w1 = emit (Spawn ''yarn'' [''--version''] (Some dir) None) w
            in case spawn w1 (trace w1) of
                 Inl e \<Rightarrow> (Inr (Yarn False), w1)
               | Inr out \<Rightarrow>
                   (case semver_parse w1 (trim out) of
                      None \<Rightarrow> (Inr (Yarn False), w1)
                    | Some major \<Rightarrow> (Inr (Yarn (major \<ge> 2)), w1)))
         else (Inr Npm, w))"

subsection \<open>getTokenIsRequired, getPackageInfo, infoAllow404\<close>

definition getTokenIsRequired :: "world \<Rightarrow> (js_error + bool) \<times> world" where
  "getTokenIsRequired w =
    (let w1 = emit (Spawn ''npm'' [''profile'', ''get'', ''--json''] None
                 (Some (getCorrectRegistry None (npm_config_registry w)))) w
     in case spawn w1 (trace w1) of
          Inl e \<Rightarrow> (Inl e, w1)
        | Inr out \<Rightarrow>
            (case jsonParse out w1 of
               (Inl e, w2) \<Rightarrow> (Inl e, w2)
             | (Inr json, w2) \<Rightarrow>
                 (case getProp (Some json) ''error'' of
                    Inl e \<Rightarrow> (Inl e, w2)
                  | Inr err \<Rightarrow>
                      if truthy err then (Inr False, w2)
                      else if \<not> truthy (property (Some json) ''tfa'') then (Inr False, w2)
                      else if \<not> truthy (property (property (Some json) ''tfa'') ''mode'')
                        then (Inr False, w2)
                      else (Inr (property (property (Some json) ''tfa'') ''mode''
                                   = Some (JString ''auth-and-writes'')), w2))))"

definition getPackageInfo :: "PackageJSON \<Rightarrow> world \<Rightarrow> (js_error + json) \<times> world" where
  "getPackageInfo packageJson w =
    (let w1 = emit (Enter npmRequestLimit) w;
         w2 = emit (Log info [Text ''npm info '', Text (name packageJson)]) w1;
         w3 = emit (Spawn ''npm''
                [''info'', name packageJson, ''--registry'',
                 getCorrectRegistry (Some packageJson) (npm_config_registry w2), ''--json'']
                None None) w2
     in case spawn w3 (trace w3) of
          Inl e \<Rightarrow> (Inl e, emit (Leave npmRequestLimit) w3)
        | Inr out \<Rightarrow>
            if out = [] then
              (Inr (JObject [(''error'', JObject [(''code'', JString ''E404'')])]),
               emit (Leave npmRequestLimit) w3)
            else
              (case jsonParse out w3 of (r, w4) \<Rightarrow> (r, emit (Leave npmRequestLimit) w4)))"

definition infoAllow404 :: "PackageJSON \<Rightarrow> world \<Rightarrow> (js_error + InfoResult) \<times> world" where
  "infoAllow404 packageJson w =
    (case getPackageInfo packageJson w of
       (Inl e, w1) \<Rightarrow> (Inl e, w1)
     | (Inr packageInfo, w1) \<Rightarrow>
         (case getProp (Some packageInfo) ''error'' of
            Inl e \<Rightarrow> (Inl e, w1)
          | Inr err \<Rightarrow>
              if property err ''code'' = Some (JString ''E404'') then
                (Inr \<lparr>published = False, pkgInfo = JObject []\<rparr>,
                 emit (Log warn [Text ''Received 404 for npm info '',
                  Text ([CHR 0x22] @ name packageJson @ [CHR 0x22])]) w1)
              else if truthy err then
                (let w2 = emit (Log error [Text ''Received an unknown error code: '',
                                 Value (property err ''code''), Text '' for npm info '',
                                 Text ([CHR 0x22] @ name packageJson @ [CHR 0x22])]) w1;
                     w3 = emit (Log error [Value (property err ''summary'')]) w2;
                     w4 = (if truthy (property err ''detail'')
                           then emit (Log error [Value (property err ''detail'')]) w3 else w3)
                 in (Inl (ExitError 1), w4))
              else (Inr \<lparr>published = True, pkgInfo = packageInfo\<rparr>, w1)))"

subsection \<open>askForOtpCode, getOtpCode\<close>

definition askForOtpCode :: "TwoFactorState \<Rightarrow> world \<Rightarrow> string \<times> TwoFactorState \<times> world" where
  "askForOtpCode twoFactorState w =
    (let w1 = emit (Enter otpAskLimit) w;
         st = whileQueued w1 (trace w1) twoFactorState
     in case token st of
          Some t \<Rightarrow> (t, st, emit (Leave otpAskLimit) w1)
        | None \<Rightarrow>
            (let w2 = emit (Log info
                        [Text ''This operation requires a one-time password from your authenticator.'']) w1;
                 w3 = emit (AskQuestion ''Enter one-time password:'') w2;
                 val = askQuestion w3 (trace w3)
             in (val, st\<lparr>token := Some val\<rparr>, emit (Leave otpAskLimit) w3)))"

definition getOtpCode :: "TwoFactorState \<Rightarrow> world \<Rightarrow> string \<times> TwoFactorState \<times> world" where
  "getOtpCode twoFactorState w =
    (case token twoFactorState of
       Some t \<Rightarrow> (t, twoFactorState, w)
     | None \<Rightarrow> askForOtpCode twoFactorState w)"

subsection \<open>internalPublish, publish\<close>

text \<open>
  Lines 178 to 208 of \<^verbatim>\<open>internalPublish\<close>: the detection of the tool, the arguments,
  the one-time password when one is required outside CI, and the publish command
  itself, whose standard output is the result.
\<close>

definition spawnPublish ::
  "PublishOptions \<Rightarrow> TwoFactorState \<Rightarrow> world \<Rightarrow> (js_error + string) \<times> TwoFactorState \<times> world" where
  "spawnPublish opts twoFactorState w =
    (case getPublishTool (cwd opts) w of
       (Inl e, w1) \<Rightarrow> (Inl e, twoFactorState, w1)
     | (Inr publishTool, w1) \<Rightarrow>
         (let args1 =
                (if publishTool = Yarn True then [''npm''] else [])
                @ [''publish'', cwd opts, ''--json'']
                @ (case access opts of
                     None \<Rightarrow> []
                   | Some a \<Rightarrow> if a = [] then [] else [''--access'', a])
                @ [''--tag'', tag opts]
          in case isRequired twoFactorState of
               Rejected e \<Rightarrow> (Inl e, twoFactorState, w1)
             | Resolved required \<Rightarrow>
                 (case (if required \<and> \<not> isCI w1
                        then (case getOtpCode twoFactorState w1 of
                                (otpCode, st, w2) \<Rightarrow> (args1 @ [''--otp'', otpCode], st, w2))
                        else (args1, twoFactorState, w1)) of
                    (args2, st, w2) \<Rightarrow>
                      (let publishArgs =
                             args2 @ (if publishTool = Pnpm True then [''--no-git-checks''] else []);
                           w3 = emit (Spawn (tool_name publishTool) publishArgs None
                                  (Some (getCorrectRegistry None (npm_config_registry w2)))) w2
                       in (spawn w3 (trace w3), st, w3)))))"

text \<open>
  Lines 219 to 221: the test on \<^verbatim>\<open>json.error\<close>, which is truthy there, so that reading
  its properties cannot throw; \<^verbatim>\<open>||\<close> and \<^verbatim>\<open>&&\<close> evaluate from the left and stop
  early.
\<close>

definition isOtpError :: "jsval \<Rightarrow> js_error + bool" where
  "isOtpError err =
    (if property err ''code'' = Some (JString ''EOTP'') then Inr True
     else if property err ''code'' = Some (JString ''E401'')
       then js_includes (property err ''detail'') ''--otp=<code>''
     else Inr False)"

text \<open>
  \<open>None\<close> is a call that never returns: the retry edge recurses for as long as the
  registry keeps asking for a one-time password.
\<close>

partial_function (option) internalPublish ::
  "string \<Rightarrow> PublishOptions \<Rightarrow> TwoFactorState \<Rightarrow> world
     \<Rightarrow> ((js_error + PublishResult) \<times> TwoFactorState \<times> world) option" where
  "internalPublish pkgName opts twoFactorState w =
    (case spawnPublish opts twoFactorState w of
       (Inl e, st, w1) \<Rightarrow> Some (Inl e, st, w1)
     | (Inr out, st, w1) \<Rightarrow>
         (case jsonParse (replace_non_brace_prefix out) w1 of
            (Inl e, w2) \<Rightarrow> Some (Inl e, st, w2)
          | (Inr json, w2) \<Rightarrow>
              (case getProp (Some json) ''error'' of
                 Inl e \<Rightarrow> Some (Inl e, st, w2)
               | Inr err \<Rightarrow>
                   if \<not> truthy err then Some (Inr \<lparr>published = True\<rparr>, st, w2)
                   else
                     (case isOtpError err of
                        Inl e \<Rightarrow> Some (Inl e, st, w2)
                      | Inr otp \<Rightarrow>
                          if otp \<and> \<not> isCI w2 then
                            internalPublish pkgName opts
                              (st\<lparr>token := None, isRequired := Resolved True\<rparr>) w2
                          else
                            Some (Inr \<lparr>published = False\<rparr>, st,
                                  emit (Log error
                                    ([Text ''an error occurred while publishing '', Text pkgName,
                                      Text '': '', Value (property err ''code''),
                                      Value (property err ''summary'')]
                                     @ (if truthy (property err ''detail'')
                                        then [Text [CHR 0x0A], Value (property err ''detail'')]
                                        else [Text []]))) w2)))))"

definition publish ::
  "string \<Rightarrow> PublishOptions \<Rightarrow> TwoFactorState \<Rightarrow> world
     \<Rightarrow> ((js_error + PublishResult) \<times> TwoFactorState \<times> world) option" where
  "publish pkgName opts twoFactorState w =
    (let w1 = emit (Enter npmRequestLimit) w;
         st1 = whileQueued w1 (trace w1) twoFactorState;
         w2 = emit (Enter npmPublishLimit) w1;
         st2 = whileQueued w2 (trace w2) st1
     in map_option
          (\<lambda>(r, st, w3). (r, st, emit (Leave npmRequestLimit) (emit (Leave npmPublishLimit) w3)))
          (internalPublish pkgName opts st2 w2))"

subsection \<open>Notions of the specification\<close>

text \<open>\<^verbatim>\<open>packageJson?.publishConfig?.registry\<close>: the registry the package itself asks for.\<close>

definition package_registry :: "PackageJSON option \<Rightarrow> string option" where
  "package_registry packageJson =
     Option.bind (Option.bind packageJson publishConfig) registry"

text \<open>
  \<open>extends w w'\<close>: the world \<open>w'\<close> is \<open>w\<close> after some more events; the environment and
  the behaviour of the outside world are the same.
\<close>

definition extends :: "world \<Rightarrow> world \<Rightarrow> bool" where
  "extends w w' =
     (isCI w' = isCI w \<and> npm_config_registry w' = npm_config_registry w
      \<and> preferredPM w' = preferredPM w \<and> spawn w' = spawn w
      \<and> semver_parse w' = semver_parse w \<and> JSON_parse w' = JSON_parse w
      \<and> askQuestion w' = askQuestion w \<and> whileQueued w' = whileQueued w
      \<and> (\<exists>evs. trace w' = trace w @ evs))"

subsection \<open>The gates\<close>

text \<open>
  Modelled from the spec: the limiter that \<^verbatim>\<open>pLimit\<close> returns, which the package
  \<^verbatim>\<open>p-limit\<close> provides and the sources only call. A gate has a fixed capacity; a unit of
  work that is submitted starts at once when a slot is free and waits in the queue
  otherwise; a unit that settles, with a result or with an error, gives its slot back,
  and the slot goes to the unit that has waited longest.
\<close>

record 'u ConcurrencyGate =
  slots :: nat
  executing :: "'u list"
  queued :: "'u list"

text \<open>
  Modelled from the spec: what happens at a gate. \<open>Submit u\<close> hands the unit of work \<open>u\<close>
  to the gate; \<open>Settle u\<close> is the end of a unit, with a result or with an error.
\<close>

datatype 'u gate_call = Submit 'u | Settle 'u

text \<open>Modelled from the spec: a new gate of capacity \<open>n\<close>, with nothing executing or queued.\<close>

definition new_gate :: "nat \<Rightarrow> 'u ConcurrencyGate" where
  "new_gate n = \<lparr>slots = n, executing = [], queued = []\<rparr>"

text \<open>
  Modelled from the spec: the gate after one more call. A submitted unit executes at
  once when fewer units than the capacity are executing, and is queued behind the
  others otherwise; when an executing unit settles, its slot goes to the head of the
  queue; a unit that is not executing has no slot to give back.
\<close>

fun gate_step :: "'u ConcurrencyGate \<Rightarrow> 'u gate_call \<Rightarrow> 'u ConcurrencyGate" where
  "gate_step g (Submit u) =
     (if length (executing g) < slots g
      then g\<lparr>executing := executing g @ [u]\<rparr>
      else g\<lparr>queued := queued g @ [u]\<rparr>)"
| "gate_step g (Settle u) =
     (if u \<in> set (executing g) then
        (case queued g of
           [] \<Rightarrow> g\<lparr>executing := remove1 u (executing g)\<rparr>
         | next_unit # waiting \<Rightarrow>
             g\<lparr>executing := remove1 u (executing g) @ [next_unit], queued := waiting\<rparr>)
      else g)"

text \<open>Modelled from the spec: a gate of capacity \<open>n\<close> after the given calls, in order.\<close>

definition gate_run :: "nat \<Rightarrow> 'u gate_call list \<Rightarrow> 'u ConcurrencyGate" where
  "gate_run n calls = foldl gate_step (new_gate n) calls"

text \<open>The events of the two gates that \<^verbatim>\<open>publish\<close> wraps around \<^verbatim>\<open>internalPublish\<close>.\<close>

definition publish_gate_event :: "event \<Rightarrow> bool" where
  "publish_gate_event e =
     (e \<in> set [Enter npmRequestLimit, Leave npmRequestLimit, Enter npmPublishLimit, Leave npmPublishLimit])"

text \<open>
  \<open>ungated w w'\<close>: the world \<open>w'\<close> is \<open>w\<close> after some more events, none of which enters or
  leaves the info gate or the publish gate.
\<close>

definition ungated :: "world \<Rightarrow> world \<Rightarrow> bool" where
  "ungated w w' = (\<exists>evs. trace w' = trace w @ evs \<and> \<not> (\<exists>e \<in> set evs. publish_gate_event e))"

subsection \<open>A scripted world for the examples\<close>

text \<open>
  \<^verbatim>\<open>JSON.parse\<close> and \<^verbatim>\<open>semver.parse\<close> on the documents and versions of the examples
  (every other input is taken as malformed), no registry in the environment, and an
  operator who types 222222 at every prompt.
\<close>

definition demo_JSON_parse :: "string \<Rightarrow> json option" where
  \<open>demo_JSON_parse = map_of
     [(''{"id":"pkg@1.0.0"}'', JObject [(''id'', JString ''pkg@1.0.0'')]),
      (''{"published":true}'', JObject [(''published'', JBool True)]),
      (''{"error":{"code":"EOTP"}}'', JObject [(''error'', JObject [(''code'', JString ''EOTP'')])]),
      (''{"error":{"code":"E401"}}'', JObject [(''error'', JObject [(''code'', JString ''E401'')])]),
      (''{"error":{"code":"E401","detail":"pass --otp=<code> to the command"}}'',
         JObject [(''error'', JObject [(''code'', JString ''E401''),
                    (''detail'', JString ''pass --otp=<code> to the command'')])]),
      (''{"error":{"code":"E404"}}'', JObject [(''error'', JObject [(''code'', JString ''E404'')])]),
      (''{"error":{"code":"E500","summary":"Internal Server Error"}}'',
         JObject [(''error'', JObject [(''code'', JString ''E500''),
                    (''summary'', JString ''Internal Server Error'')])]),
      (''{"name":"pkg","version":"1.0.0"}'',
         JObject [(''name'', JString ''pkg''), (''version'', JString ''1.0.0'')]),
      (''{"tfa":{"pending":false,"mode":"auth-and-writes"}}'',
         JObject [(''tfa'', JObject [(''pending'', JBool False),
                    (''mode'', JString ''auth-and-writes'')])]),
      (''{"tfa":{"pending":false,"mode":"auth-only"}}'',
         JObject [(''tfa'', JObject [(''pending'', JBool False), (''mode'', JString ''auth-only'')])]),
      (''{"tfa":null}'', JObject [(''tfa'', JNull)])]\<close>

definition demo_semver_parse :: "string \<Rightarrow> nat option" where
  "demo_semver_parse = map_of [(''7.1.0'', 7), (''4.14.4'', 4), (''3.6.4'', 3), (''1.22.19'', 1)]"

definition demo_world ::
  "bool \<Rightarrow> string option \<Rightarrow> (event list \<Rightarrow> js_error + string) \<Rightarrow> world" where
  "demo_world ci pm replies =
     \<lparr>isCI = ci, npm_config_registry = None,
      preferredPM = (\<lambda>tr dir. Inr pm), spawn = replies,
      semver_parse = demo_semver_parse, JSON_parse = demo_JSON_parse,
      askQuestion = (\<lambda>tr. ''222222''), whileQueued = (\<lambda>tr st. st), trace = []\<rparr>"

definition demo_opts :: PublishOptions where
  "demo_opts = \<lparr>cwd = ''/repo/pkg'', access = Some ''public'', tag = ''latest''\<rparr>"

text \<open>A registry that rejects every one-time password but 222222.\<close>

definition otp_registry :: "event list \<Rightarrow> js_error + string" where
  \<open>otp_registry tr =
     (case rev tr of
        Spawn cmd args dir reg # earlier \<Rightarrow>
          if ''222222'' \<in> set args then Inr (''+ pkg@1.0.0'' @ [CHR 0x0A] @ ''{"id":"pkg@1.0.0"}'')
          else Inr ''{"error":{"code":"E401","detail":"pass --otp=<code> to the command"}}''
      | _ \<Rightarrow> Inl (Rejection ''no process''))\<close>

definition demo_package :: PackageJSON where
  "demo_package = \<lparr>name = ''pkg'', publishConfig = None\<rparr>"

text \<open>Another caller that answers the prompt first, while this one is queued.\<close>

definition other_caller :: "event list \<Rightarrow> TwoFactorState \<Rightarrow> TwoFactorState" where
  "other_caller tr st = st\<lparr>token := Some ''333333''\<rparr>"

text \<open>
  Two outputs at the edge of what \<^verbatim>\<open>JSON.parse\<close> accepts: the literal \<^verbatim>\<open>null\<close>, and a
  profile whose \<^verbatim>\<open>error\<close> is the number 0.
\<close>

definition prints_null :: "event list \<Rightarrow> js_error + string" where
  "prints_null tr = Inr ''null''"

definition prints_error_zero :: "event list \<Rightarrow> js_error + string" where
  \<open>prints_error_zero tr = Inr ''{"error":0,"tfa":{"mode":"auth-and-writes"}}''\<close>

definition edge_JSON_parse :: "string \<Rightarrow> json option" where
  \<open>edge_JSON_parse = map_of
     [(''null'', JNull),
      (''{"error":0,"tfa":{"mode":"auth-and-writes"}}'',
         JObject [(''error'', JNumber 0), (''tfa'', JObject [(''mode'', JString ''auth-and-writes'')])])]\<close>

definition edge_world :: "(event list \<Rightarrow> js_error + string) \<Rightarrow> world" where
  "edge_world replies = (demo_world False None replies)\<lparr>JSON_parse := edge_JSON_parse\<rparr>"

section \<open>Properties\<close>

subsection \<open>Auxiliary facts\<close>

lemma emit_fields [simp]:
  "isCI (emit e w) = isCI w"
  "npm_config_registry (emit e w) = npm_config_registry w"
  "preferredPM (emit e w) = preferredPM w"
  "spawn (emit e w) = spawn w"
  "semver_parse (emit e w) = semver_parse w"
  "JSON_parse (emit e w) = JSON_parse w"
  "askQuestion (emit e w) = askQuestion w"
  "whileQueued (emit e w) = whileQueued w"
  "trace (emit e w) = trace w @ [e]"
  by (simp_all add: emit_def)

lemma extends_refl [simp]: "extends w w"
  by (simp add: extends_def)

lemma extends_emit [simp]: "extends w w' \<Longrightarrow> extends w (emit e w')"
  by (auto simp add: extends_def)

lemma extends_trans: "extends w w' \<Longrightarrow> extends w' w'' \<Longrightarrow> extends w w''"
  by (auto simp add: extends_def)

lemma getPublishTool_extends: "getPublishTool dir w = (r, w') \<Longrightarrow> extends w w'"
  by (auto simp add: getPublishTool_def Let_def split: sum.splits option.splits if_splits)

lemma getOtpCode_extends: "getOtpCode st w = (t, st', w') \<Longrightarrow> extends w w'"
  by (auto simp add: getOtpCode_def askForOtpCode_def Let_def split: option.splits)

lemma spawnPublish_extends:
  assumes "spawnPublish opts st w = (r, st', w')"
  shows "extends w w'"
proof (cases "getPublishTool (cwd opts) w")
  case (Pair r0 w1)
  then have e1: "extends w w1" by (rule getPublishTool_extends)
  show ?thesis
  proof (cases r0)
    case (Inl e)
    with Pair assms e1 show ?thesis by (simp add: spawnPublish_def)
  next
    case (Inr publishTool)
    show ?thesis
    proof (cases "isRequired st")
      case (Rejected e)
      with Pair Inr assms e1 show ?thesis by (simp add: spawnPublish_def)
    next
      case (Resolved required)
      show ?thesis
      proof (cases "required \<and> \<not> isCI w1")
        case True
        obtain t st2 w2 where g: "getOtpCode st w1 = (t, st2, w2)"
          by (cases "getOtpCode st w1") auto
        then have "extends w1 w2" by (rule getOtpCode_extends)
        with e1 have "extends w w2" by (rule extends_trans)
        with Pair Inr Resolved True g assms show ?thesis
          by (auto simp add: spawnPublish_def Let_def)
      next
        case False
        with Pair Inr Resolved assms e1 show ?thesis
          by (auto simp add: spawnPublish_def Let_def)
      qed
    qed
  qed
qed

lemma truthy_getProp: "truthy v \<Longrightarrow> getProp v k = Inr (property v k)"
  by (cases "(v, k)" rule: getProp.cases) auto

lemma internalPublish_parsed:
  assumes "spawnPublish opts st w = (Inr out, st1, w1)"
    and "JSON_parse w (replace_non_brace_prefix out) = Some json"
    and "getProp (Some json) ''error'' = Inr err"
    and "truthy err"
    and "isOtpError err = Inr otp"
  shows "internalPublish pkgName opts st w =
          (if otp \<and> \<not> isCI w then
             internalPublish pkgName opts (st1\<lparr>token := None, isRequired := Resolved True\<rparr>) w1
           else
             Some (Inr \<lparr>published = False\<rparr>, st1,
               emit (Log error
                 ([Text ''an error occurred while publishing '', Text pkgName,
                   Text '': '', Value (property err ''code''),
                   Value (property err ''summary'')]
                  @ (if truthy (property err ''detail'')
                     then [Text [CHR 0x0A], Value (property err ''detail'')]
                     else [Text []]))) w1))"
proof -
  from assms(1) have "extends w w1" by (rule spawnPublish_extends)
  then have "JSON_parse w1 = JSON_parse w" "isCI w1 = isCI w"
    by (simp_all add: extends_def)
  with assms show ?thesis
    by (subst internalPublish.simps) (simp add: jsonParse_def)
qed

lemma code_Some_truthy:
  "property err k = Some v \<Longrightarrow> truthy err"
  by (cases "(err, k)" rule: property.cases) auto

lemma property_Some_getProp:
  "property v k = Some x \<Longrightarrow> getProp v k' = Inr (property v k')"
  by (rule truthy_getProp) (rule code_Some_truthy)

lemma replace_non_brace_prefix_eq: "replace_non_brace_prefix s = dropWhile (\<lambda>c. c \<noteq> CHR ''{'') s"
  by (simp add: replace_non_brace_prefix_def dropWhile_eq_drop)

lemma replace_non_brace_prefix_split:
  "takeWhile (\<lambda>c. c \<noteq> CHR ''{'') s @ replace_non_brace_prefix s = s"
  by (simp add: replace_non_brace_prefix_eq)

lemma replace_non_brace_prefix_head:
  "replace_non_brace_prefix s = [] \<or> (\<exists>rest. replace_non_brace_prefix s = CHR ''{'' # rest)"
proof (cases "replace_non_brace_prefix s")
  case Nil
  then show ?thesis by simp
next
  case (Cons c cs)
  then have "dropWhile (\<lambda>c. c \<noteq> CHR ''{'') s = c # cs"
    by (simp add: replace_non_brace_prefix_eq)
  then have "c = CHR ''{''"
    using hd_dropWhile [of "\<lambda>c. c \<noteq> CHR ''{''" s] by auto
  with Cons show ?thesis by simp
qed

lemma internalPublish_unparsed:
  assumes "spawnPublish opts st w = (Inr out, st1, w1)"
    and "JSON_parse w (replace_non_brace_prefix out) = None"
  shows "internalPublish pkgName opts st w =
           Some (Inl SyntaxError, st1,
             emit (Log console_error
               [Text ''error parsing json:'', Text (replace_non_brace_prefix out)]) w1)"
proof -
  from assms(1) have "extends w w1" by (rule spawnPublish_extends)
  then have "JSON_parse w1 = JSON_parse w" by (simp add: extends_def)
  with assms show ?thesis
    by (subst internalPublish.simps) (simp add: jsonParse_def)
qed

lemma internalPublish_no_error:
  assumes "spawnPublish opts st w = (Inr out, st1, w1)"
    and "JSON_parse w (replace_non_brace_prefix out) = Some json"
    and "json \<noteq> JNull"
    and "\<not> truthy (property (Some json) ''error'')"
  shows "internalPublish pkgName opts st w = Some (Inr \<lparr>published = True\<rparr>, st1, w1)"
proof -
  from assms(1) have "extends w w1" by (rule spawnPublish_extends)
  then have "JSON_parse w1 = JSON_parse w" by (simp add: extends_def)
  moreover from assms(3) have "getProp (Some json) ''error'' = Inr (property (Some json) ''error'')"
    by (cases json) auto
  ultimately show ?thesis using assms
    by (subst internalPublish.simps) (simp add: jsonParse_def)
qed

lemma getProp_not_null: "json \<noteq> JNull \<Longrightarrow> getProp (Some json) k = Inr (property (Some json) k)"
  by (cases json) auto

lemma getPublishTool_trace:
  "getPublishTool dir w = (r, w1) \<Longrightarrow>
     trace w1 = trace w \<or> (\<exists>pm. trace w1 = trace w @ [Spawn pm [''--version''] (Some dir) None])"
  by (auto simp add: getPublishTool_def Let_def split: sum.splits option.splits if_splits)

lemmas demo_defs = demo_world_def demo_opts_def otp_registry_def demo_JSON_parse_def
  demo_semver_parse_def

lemma internalPublish_rejected:
  assumes "spawnPublish opts st w = (Inl e, st1, w1)"
  shows "internalPublish pkgName opts st w = Some (Inl e, st1, w1)"
  using assms by (subst internalPublish.simps) simp

lemma spawnPublish_with_otp:
  assumes "\<not> isCI w"
    and "isRequired st = Resolved True"
    and "getPublishTool (cwd opts) w = (Inr tool, w2)"
    and "getOtpCode st w2 = (otpCode, st3, w3)"
  shows "spawnPublish opts st w =
          (spawn w (trace w3 @
             [Spawn (tool_name tool)
                ((if tool = Yarn True then [''npm''] else [])
                 @ [''publish'', cwd opts, ''--json'']
                 @ (case access opts of None \<Rightarrow> [] | Some a \<Rightarrow> if a = [] then [] else [''--access'', a])
                 @ [''--tag'', tag opts]
                 @ [''--otp'', otpCode]
                 @ (if tool = Pnpm True then [''--no-git-checks''] else []))
                None (Some (getCorrectRegistry None (npm_config_registry w)))]),
           st3,
           emit (Spawn (tool_name tool)
                ((if tool = Yarn True then [''npm''] else [])
                 @ [''publish'', cwd opts, ''--json'']
                 @ (case access opts of None \<Rightarrow> [] | Some a \<Rightarrow> if a = [] then [] else [''--access'', a])
                 @ [''--tag'', tag opts]
                 @ [''--otp'', otpCode]
                 @ (if tool = Pnpm True then [''--no-git-checks''] else []))
                None (Some (getCorrectRegistry None (npm_config_registry w)))) w3)"
proof -
  from assms(3) have "extends w w2" by (rule getPublishTool_extends)
  moreover from assms(4) have "extends w2 w3" by (rule getOtpCode_extends)
  ultimately have "isCI w2 = isCI w" "npm_config_registry w3 = npm_config_registry w" "spawn w3 = spawn w"
    by (simp_all add: extends_def)
  with assms show ?thesis
    by (simp add: spawnPublish_def Let_def)
qed

lemma gate_step_bound:
  assumes bound: "length (executing g) \<le> slots g"
  shows "length (executing (gate_step g c)) \<le> slots (gate_step g c)
         \<and> slots (gate_step g c) = slots g"
proof (cases c)
  case (Submit u)
  with bound show ?thesis by auto
next
  case (Settle u)
  show ?thesis
  proof (cases "u \<in> set (executing g)")
    case True
    then have "length (remove1 u (executing g)) = length (executing g) - 1"
      by (simp add: length_remove1)
    moreover from True have "0 < length (executing g)"
      by (cases "executing g") auto
    ultimately show ?thesis using Settle True bound
      by (auto split: list.splits)
  next
    case False
    with Settle bound show ?thesis by simp
  qed
qed

lemma gate_fold_bound:
  "length (executing g) \<le> slots g \<Longrightarrow>
     length (executing (foldl gate_step g calls)) \<le> slots g
     \<and> slots (foldl gate_step g calls) = slots g"
proof (induction calls arbitrary: g)
  case Nil
  then show ?case by simp
next
  case (Cons c calls)
  from gate_step_bound [OF Cons.prems, of c]
  have a: "length (executing (gate_step g c)) \<le> slots (gate_step g c)"
    and b: "slots (gate_step g c) = slots g" by simp_all
  from Cons.IH [OF a] b show ?case by simp
qed

lemma gate_run_bound: "length (executing (gate_run n calls)) \<le> n"
  using gate_fold_bound [of "new_gate n" calls] by (simp add: gate_run_def new_gate_def)

lemma gate_run_burst:
  "gate_run n (map Submit us) = \<lparr>slots = n, executing = take n us, queued = drop n us\<rparr>"
proof (induction us rule: rev_induct)
  case Nil
  then show ?case by (simp add: gate_run_def new_gate_def)
next
  case (snoc u us)
  have "gate_run n (map Submit (us @ [u])) = gate_step (gate_run n (map Submit us)) (Submit u)"
    by (simp add: gate_run_def)
  with snoc show ?case by (cases "length us < n") simp_all
qed

lemma ungated_refl [simp]: "ungated w w"
  by (simp add: ungated_def)

lemma ungated_emit: "\<not> publish_gate_event e \<Longrightarrow> ungated w w' \<Longrightarrow> ungated w (emit e w')"
  by (auto simp add: ungated_def)

lemma ungated_trans: "ungated w w' \<Longrightarrow> ungated w' w'' \<Longrightarrow> ungated w w''"
  by (auto simp add: ungated_def)

lemma getPublishTool_ungated: "getPublishTool dir w = (r, w') \<Longrightarrow> ungated w w'"
  by (auto simp add: getPublishTool_def Let_def ungated_def publish_gate_event_def
        split: sum.splits option.splits if_splits)

lemma getOtpCode_ungated: "getOtpCode st w = (t, st', w') \<Longrightarrow> ungated w w'"
  by (auto simp add: getOtpCode_def askForOtpCode_def Let_def ungated_def publish_gate_event_def
        split: option.splits)

lemma spawnPublish_ungated:
  assumes "spawnPublish opts st w = (r, st', w')"
  shows "ungated w w'"
proof (cases "getPublishTool (cwd opts) w")
  case (Pair r0 w1)
  then have e1: "ungated w w1" by (rule getPublishTool_ungated)
  have sp: "\<not> publish_gate_event (Spawn c a d g)" for c a d g
    by (simp add: publish_gate_event_def)
  show ?thesis
  proof (cases r0)
    case (Inl e)
    with Pair assms e1 show ?thesis by (simp add: spawnPublish_def)
  next
    case (Inr publishTool)
    show ?thesis
    proof (cases "isRequired st")
      case (Rejected e)
      with Pair Inr assms e1 show ?thesis by (simp add: spawnPublish_def)
    next
      case (Resolved required)
      show ?thesis
      proof (cases "required \<and> \<not> isCI w1")
        case True
        obtain t st2 w2 where g: "getOtpCode st w1 = (t, st2, w2)"
          by (cases "getOtpCode st w1") auto
        then have "ungated w1 w2" by (rule getOtpCode_ungated)
        with e1 have "ungated w w2" by (rule ungated_trans)
        with Pair Inr Resolved True g assms show ?thesis
          by (auto simp add: spawnPublish_def Let_def intro!: ungated_emit sp)
      next
        case False
        with Pair Inr Resolved assms e1 show ?thesis
          by (auto simp add: spawnPublish_def Let_def intro!: ungated_emit sp)
      qed
    qed
  qed
qed

lemma jsonParse_ungated: "jsonParse s w = (r, w') \<Longrightarrow> ungated w w'"
  by (auto simp add: jsonParse_def ungated_def publish_gate_event_def split: option.splits)

lemma internalPublish_ungated:
  assumes "internalPublish pkgName opts st w = Some y"
  shows "ungated w (snd (snd y))"
proof (rule internalPublish.raw_induct
         [where P = "\<lambda>pkgName opts st w y. ungated w (snd (snd y))", OF _ assms], goal_cases)
  case (1 recur pkgName opts st w y)
  obtain r0 st1 w1 where sp: "spawnPublish opts st w = (r0, st1, w1)"
    by (cases "spawnPublish opts st w") auto
  then have u1: "ungated w w1" by (rule spawnPublish_ungated)
  show ?case
  proof (cases r0)
    case (Inl e)
    with 1(2) sp u1 show ?thesis by auto
  next
    case (Inr out)
    obtain r1 w2 where jp: "jsonParse (replace_non_brace_prefix out) w1 = (r1, w2)"
      by (cases "jsonParse (replace_non_brace_prefix out) w1") auto
    then have "ungated w1 w2" by (rule jsonParse_ungated)
    with u1 have u2: "ungated w w2" by (rule ungated_trans)
    have lg: "\<not> publish_gate_event (Log l ps)" for l ps
      by (simp add: publish_gate_event_def)
    show ?thesis
    proof (cases r1)
      case (Inl e)
      with 1(2) sp Inr jp u2 show ?thesis by auto
    next
      case json: (Inr json)
      show ?thesis
      proof (cases "getProp (Some json) ''error''")
        case (Inl e)
        with 1(2) sp Inr jp json u2 show ?thesis by auto
      next
        case err: (Inr err)
        show ?thesis
        proof (cases "truthy err")
          case False
          with 1(2) sp Inr jp json err u2 show ?thesis by auto
        next
          case True
          show ?thesis
          proof (cases "isOtpError err")
            case (Inl e)
            with 1(2) sp Inr jp json err True u2 show ?thesis by auto
          next
            case otp: (Inr otp)
            show ?thesis
            proof (cases "otp \<and> \<not> isCI w2")
              case retry: True
              with 1(2) sp Inr jp json err True otp
              have "recur pkgName opts (st1\<lparr>token := None, isRequired := Resolved True\<rparr>) w2 = Some y"
                by auto
              then have "ungated w2 (snd (snd y))" by (rule 1(1))
              with u2 show ?thesis by (rule ungated_trans)
            next
              case False
              with 1(2) sp Inr jp json err True otp u2 show ?thesis
                by (auto intro!: ungated_emit lg)
            qed
          qed
        qed
      qed
    qed
  qed
qed

lemma publish_otp_session:
  \<open>publish ''pkg'' demo_opts \<lparr>token = Some ''111111'', isRequired = Resolved True\<rparr>
      (demo_world False None otp_registry)
    = Some (Inr \<lparr>published = True\<rparr>, \<lparr>token = Some ''222222'', isRequired = Resolved True\<rparr>,
        (demo_world False None otp_registry)
          \<lparr>trace :=
             [Enter npmRequestLimit, Enter npmPublishLimit,
              Spawn ''npm'' [''publish'', ''/repo/pkg'', ''--json'', ''--access'', ''public'',
                 ''--tag'', ''latest'', ''--otp'', ''111111''] None (Some ''https://registry.npmjs.org''),
              Enter otpAskLimit,
              Log info [Text ''This operation requires a one-time password from your authenticator.''],
              AskQuestion ''Enter one-time password:'',
              Leave otpAskLimit,
              Spawn ''npm'' [''publish'', ''/repo/pkg'', ''--json'', ''--access'', ''public'',
                 ''--tag'', ''latest'', ''--otp'', ''222222''] None (Some ''https://registry.npmjs.org''),
              Leave npmPublishLimit, Leave npmRequestLimit]\<rparr>)\<close>
  apply (simp add: publish_def demo_defs emit_def)
  apply (subst internalPublish.simps)
  apply (simp add: spawnPublish_def getPublishTool_def getOtpCode_def askForOtpCode_def
          getCorrectRegistry_def jsonParse_def replace_non_brace_prefix_def emit_def
          Let_def isOtpError_def demo_defs)
  apply (subst internalPublish.simps)
  apply (simp add: spawnPublish_def getPublishTool_def getOtpCode_def askForOtpCode_def
          getCorrectRegistry_def jsonParse_def replace_non_brace_prefix_def emit_def
          Let_def isOtpError_def demo_defs)
  done

subsection \<open>The registry\<close>

text \<open>
  C3. Registry resolution: the registry of the package's own \<^verbatim>\<open>publishConfig\<close> when it
  is present, else \<^verbatim>\<open>npm_config_registry\<close> of the environment when that is present;
  when the value so selected is absent, empty or the yarn mirror
  \<^verbatim>\<open>https://registry.yarnpkg.com\<close>, the result is \<^verbatim>\<open>https://registry.npmjs.org\<close>.
  The function is total and reads nothing but its two inputs.
\<close>

theorem getCorrectRegistry_policy:
  "getCorrectRegistry packageJson e =
     (case package_registry packageJson of
        Some p \<Rightarrow>
          if p = [] \<or> p = ''https://registry.yarnpkg.com'' then ''https://registry.npmjs.org'' else p
      | None \<Rightarrow>
          (case e of
             Some r \<Rightarrow>
               if r = [] \<or> r = ''https://registry.yarnpkg.com'' then ''https://registry.npmjs.org'' else r
           | None \<Rightarrow> ''https://registry.npmjs.org''))"
  by (cases packageJson; cases e)
    (auto simp add: getCorrectRegistry_def package_registry_def Let_def split: option.splits)

theorem getCorrectRegistry_policy_witness:
  "getCorrectRegistry
     (Some \<lparr>name = ''pkg'', publishConfig = Some \<lparr>registry = Some ''https://registry.yarnpkg.com''\<rparr>\<rparr>)
     (Some ''https://npm.example.com'') = ''https://registry.npmjs.org''
   \<and> getCorrectRegistry (Some \<lparr>name = ''pkg'', publishConfig = None\<rparr>)
        (Some ''https://npm.example.com'') = ''https://npm.example.com''
   \<and> getCorrectRegistry
        (Some \<lparr>name = ''pkg'', publishConfig = Some \<lparr>registry = Some ''https://npm.pkg.github.com''\<rparr>\<rparr>)
        (Some ''https://npm.example.com'') = ''https://npm.pkg.github.com''
   \<and> getCorrectRegistry None None = ''https://registry.npmjs.org''"
  by (simp add: getCorrectRegistry_policy package_registry_def)

subsection \<open>The publish tool\<close>

text \<open>
  C4. Tool detection: when \<^verbatim>\<open>preferred-pm\<close> reports pnpm, the result is pnpm with
  \<open>shouldAddNoGitChecks\<close> = (major \<open>\<ge>\<close> 5) when the version probe prints a version that
  parses, and with \<open>False\<close> when the probe cannot be spawned or its output does not
  parse; the same for yarn with \<open>berry\<close> = (major \<open>\<ge>\<close> 2); npm in every other case,
  also when nothing is reported; and whenever \<^verbatim>\<open>preferred-pm\<close> answers, the detection
  returns a tool: a failing probe never makes it reject.
\<close>

theorem getPublishTool_detection:
  "(preferredPM w (trace w) dir = Inr (Some ''pnpm'') \<longrightarrow>
      (\<forall>out major. spawn w (trace w @ [Spawn ''pnpm'' [''--version''] (Some dir) None]) = Inr out
          \<and> semver_parse w (trim out) = Some major \<longrightarrow>
        getPublishTool dir w =
          (Inr (Pnpm (5 \<le> major)), emit (Spawn ''pnpm'' [''--version''] (Some dir) None) w))
      \<and> (\<forall>e out. spawn w (trace w @ [Spawn ''pnpm'' [''--version''] (Some dir) None]) = Inl e
          \<or> (spawn w (trace w @ [Spawn ''pnpm'' [''--version''] (Some dir) None]) = Inr out
              \<and> semver_parse w (trim out) = None) \<longrightarrow>
        getPublishTool dir w =
          (Inr (Pnpm False), emit (Spawn ''pnpm'' [''--version''] (Some dir) None) w)))
   \<and> (preferredPM w (trace w) dir = Inr (Some ''yarn'') \<longrightarrow>
      (\<forall>out major. spawn w (trace w @ [Spawn ''yarn'' [''--version''] (Some dir) None]) = Inr out
          \<and> semver_parse w (trim out) = Some major \<longrightarrow>
        getPublishTool dir w =
          (Inr (Yarn (2 \<le> major)), emit (Spawn ''yarn'' [''--version''] (Some dir) None) w))
      \<and> (\<forall>e out. spawn w (trace w @ [Spawn ''yarn'' [''--version''] (Some dir) None]) = Inl e
          \<or> (spawn w (trace w @ [Spawn ''yarn'' [''--version''] (Some dir) None]) = Inr out
              \<and> semver_parse w (trim out) = None) \<longrightarrow>
        getPublishTool dir w =
          (Inr (Yarn False), emit (Spawn ''yarn'' [''--version''] (Some dir) None) w)))
   \<and> (\<forall>pm. preferredPM w (trace w) dir = Inr pm \<and> pm \<noteq> Some ''pnpm'' \<and> pm \<noteq> Some ''yarn'' \<longrightarrow>
        getPublishTool dir w = (Inr Npm, w))
   \<and> (\<forall>pm. preferredPM w (trace w) dir = Inr pm \<longrightarrow>
        (\<exists>tool w'. getPublishTool dir w = (Inr tool, w')))"
  by (auto simp add: getPublishTool_def Let_def split: sum.splits option.splits)

theorem getPublishTool_detection_witness:
  "getPublishTool ''/repo/pkg'' (demo_world False (Some ''pnpm'') (\<lambda>tr. Inr (''7.1.0'' @ [CHR 0x0A])))
     = (Inr (Pnpm True),
        emit (Spawn ''pnpm'' [''--version''] (Some ''/repo/pkg'') None)
          (demo_world False (Some ''pnpm'') (\<lambda>tr. Inr (''7.1.0'' @ [CHR 0x0A]))))
   \<and> getPublishTool ''/repo/pkg'' (demo_world False (Some ''pnpm'') (\<lambda>tr. Inl (Rejection ''ENOENT'')))
     = (Inr (Pnpm False),
        emit (Spawn ''pnpm'' [''--version''] (Some ''/repo/pkg'') None)
          (demo_world False (Some ''pnpm'') (\<lambda>tr. Inl (Rejection ''ENOENT''))))
   \<and> getPublishTool ''/repo/pkg'' (demo_world False (Some ''yarn'') (\<lambda>tr. Inr (''3.6.4'' @ [CHR 0x0A])))
     = (Inr (Yarn True),
        emit (Spawn ''yarn'' [''--version''] (Some ''/repo/pkg'') None)
          (demo_world False (Some ''yarn'') (\<lambda>tr. Inr (''3.6.4'' @ [CHR 0x0A]))))
   \<and> getPublishTool ''/repo/pkg'' (demo_world False (Some ''yarn'') (\<lambda>tr. Inr ''not a version''))
     = (Inr (Yarn False),
        emit (Spawn ''yarn'' [''--version''] (Some ''/repo/pkg'') None)
          (demo_world False (Some ''yarn'') (\<lambda>tr. Inr ''not a version'')))
   \<and> getPublishTool ''/repo/pkg'' (demo_world False None (\<lambda>tr. Inl (Rejection ''ENOENT'')))
     = (Inr Npm, demo_world False None (\<lambda>tr. Inl (Rejection ''ENOENT'')))"
  using
    getPublishTool_detection [of "demo_world False (Some ''pnpm'') (\<lambda>tr. Inr (''7.1.0'' @ [CHR 0x0A]))" "''/repo/pkg''"]
    getPublishTool_detection [of "demo_world False (Some ''pnpm'') (\<lambda>tr. Inl (Rejection ''ENOENT''))" "''/repo/pkg''"]
    getPublishTool_detection [of "demo_world False (Some ''yarn'') (\<lambda>tr. Inr (''3.6.4'' @ [CHR 0x0A]))" "''/repo/pkg''"]
    getPublishTool_detection [of "demo_world False (Some ''yarn'') (\<lambda>tr. Inr ''not a version'')" "''/repo/pkg''"]
    getPublishTool_detection [of "demo_world False None (\<lambda>tr. Inl (Rejection ''ENOENT''))" "''/repo/pkg''"]
  by (simp add: demo_world_def demo_semver_parse_def trim_def js_space_def)

subsection \<open>The output of the publish command\<close>

text \<open>
  C5. JSON after a prefix: \<^verbatim>\<open>internalPublish\<close> removes from the standard output of the
  publish command every character before the first \<^verbatim>\<open>{\<close> (everything, when there is
  none) and hands the rest to \<^verbatim>\<open>JSON.parse\<close>: \<^verbatim>\<open>jsonParse\<close> returns the very value
  \<^verbatim>\<open>JSON.parse\<close> yields for the rest, and throws its SyntaxError, after printing the
  text, when it yields none. That value decides the call: a SyntaxError leaves
  \<^verbatim>\<open>internalPublish\<close>; a value with no truthy \<^verbatim>\<open>error\<close> gives \<open>published = True\<close>; a
  value with an \<^verbatim>\<open>error\<close> that is not about a one-time password gives
  \<open>published = False\<close>, and the code, summary and detail that are reported are those of
  the parsed value. In particular the output \<^verbatim>\<open>prepublish hook ran\<close>, a line feed,
  \<^verbatim>\<open>{"published":true}\<close> is cut down to \<^verbatim>\<open>{"published":true}\<close>, and \<^verbatim>\<open>jsonParse\<close>
  returns the object with the one property \<^verbatim>\<open>published\<close> = true for it, when
  \<^verbatim>\<open>JSON.parse\<close> reads that text so.
\<close>

theorem internalPublish_json_after_prefix:
  \<open>(\<exists>noise. out = noise @ replace_non_brace_prefix out \<and> CHR ''{'' \<notin> set noise
       \<and> (replace_non_brace_prefix out = []
          \<or> (\<exists>rest. replace_non_brace_prefix out = CHR ''{'' # rest)))
   \<and> (CHR ''{'' \<notin> set out \<longrightarrow> replace_non_brace_prefix out = [])
   \<and> jsonParse (replace_non_brace_prefix out) w =
        (case JSON_parse w (replace_non_brace_prefix out) of
           Some parsed \<Rightarrow> (Inr parsed, w)
         | None \<Rightarrow>
             (Inl SyntaxError,
              emit (Log console_error
                [Text ''error parsing json:'', Text (replace_non_brace_prefix out)]) w))
   \<and> (spawnPublish opts st w = (Inr out, st1, w1) \<longrightarrow>
        (JSON_parse w (replace_non_brace_prefix out) = None \<longrightarrow>
           internalPublish pkgName opts st w =
             Some (Inl SyntaxError, st1,
               emit (Log console_error
                 [Text ''error parsing json:'', Text (replace_non_brace_prefix out)]) w1))
      \<and> (\<forall>json. JSON_parse w (replace_non_brace_prefix out) = Some json \<and> json \<noteq> JNull
              \<and> \<not> truthy (property (Some json) ''error'') \<longrightarrow>
           internalPublish pkgName opts st w = Some (Inr \<lparr>published = True\<rparr>, st1, w1))
      \<and> (\<forall>json err. JSON_parse w (replace_non_brace_prefix out) = Some json
              \<and> property (Some json) ''error'' = err \<and> truthy err
              \<and> isOtpError err = Inr False \<longrightarrow>
           internalPublish pkgName opts st w =
             Some (Inr \<lparr>published = False\<rparr>, st1,
               emit (Log error
                 ([Text ''an error occurred while publishing '', Text pkgName,
                   Text '': '', Value (property err ''code''),
                   Value (property err ''summary'')]
                  @ (if truthy (property err ''detail'')
                     then [Text [CHR 0x0A], Value (property err ''detail'')]
                     else [Text []]))) w1))
      \<and> (out = ''prepublish hook ran'' @ [CHR 0x0A] @ ''{"published":true}''
          \<and> JSON_parse w ''{"published":true}'' = Some (JObject [(''published'', JBool True)]) \<longrightarrow>
           internalPublish pkgName opts st w = Some (Inr \<lparr>published = True\<rparr>, st1, w1)))
   \<and> replace_non_brace_prefix (''prepublish hook ran'' @ [CHR 0x0A] @ ''{"published":true}'')
        = ''{"published":true}''
   \<and> (JSON_parse w ''{"published":true}'' = Some (JObject [(''published'', JBool True)]) \<longrightarrow>
        jsonParse (replace_non_brace_prefix
                     (''prepublish hook ran'' @ [CHR 0x0A] @ ''{"published":true}'')) w
          = (Inr (JObject [(''published'', JBool True)]), w))\<close>
proof (intro conjI impI allI)
  show "\<exists>noise. out = noise @ replace_non_brace_prefix out \<and> CHR ''{'' \<notin> set noise
       \<and> (replace_non_brace_prefix out = []
          \<or> (\<exists>rest. replace_non_brace_prefix out = CHR ''{'' # rest))"
  proof (intro exI conjI)
    show "out = takeWhile (\<lambda>c. c \<noteq> CHR ''{'') out @ replace_non_brace_prefix out"
      by (simp add: replace_non_brace_prefix_split)
    show "CHR ''{'' \<notin> set (takeWhile (\<lambda>c. c \<noteq> CHR ''{'') out)"
      by (auto dest: set_takeWhileD)
    show "replace_non_brace_prefix out = []
          \<or> (\<exists>rest. replace_non_brace_prefix out = CHR ''{'' # rest)"
      by (rule replace_non_brace_prefix_head)
  qed
next
  assume "CHR ''{'' \<notin> set out"
  then show "replace_non_brace_prefix out = []"
    by (auto simp add: replace_non_brace_prefix_eq)
next
  show "jsonParse (replace_non_brace_prefix out) w =
        (case JSON_parse w (replace_non_brace_prefix out) of
           Some parsed \<Rightarrow> (Inr parsed, w)
         | None \<Rightarrow>
             (Inl SyntaxError,
              emit (Log console_error
                [Text ''error parsing json:'', Text (replace_non_brace_prefix out)]) w))"
    by (simp add: jsonParse_def)
next
  assume "spawnPublish opts st w = (Inr out, st1, w1)"
    and "JSON_parse w (replace_non_brace_prefix out) = None"
  then show "internalPublish pkgName opts st w =
             Some (Inl SyntaxError, st1,
               emit (Log console_error
                 [Text ''error parsing json:'', Text (replace_non_brace_prefix out)]) w1)"
    by (rule internalPublish_unparsed)
next
  fix json
  assume "spawnPublish opts st w = (Inr out, st1, w1)"
    and "JSON_parse w (replace_non_brace_prefix out) = Some json \<and> json \<noteq> JNull
              \<and> \<not> truthy (property (Some json) ''error'')"
  then show "internalPublish pkgName opts st w = Some (Inr \<lparr>published = True\<rparr>, st1, w1)"
    by (auto intro: internalPublish_no_error)
next
  fix json err
  assume s: "spawnPublish opts st w = (Inr out, st1, w1)"
    and h: "JSON_parse w (replace_non_brace_prefix out) = Some json
              \<and> property (Some json) ''error'' = err \<and> truthy err
              \<and> isOtpError err = Inr False"
  then have p: "JSON_parse w (replace_non_brace_prefix out) = Some json"
    and t: "truthy err" and o: "isOtpError err = Inr False" by simp_all
  from h have "json \<noteq> JNull" by auto
  with h have g: "getProp (Some json) ''error'' = Inr err" by (simp add: getProp_not_null)
  from internalPublish_parsed [OF s p g t o, of pkgName]
  show "internalPublish pkgName opts st w =
             Some (Inr \<lparr>published = False\<rparr>, st1,
               emit (Log error
                 ([Text ''an error occurred while publishing '', Text pkgName,
                   Text '': '', Value (property err ''code''),
                   Value (property err ''summary'')]
                  @ (if truthy (property err ''detail'')
                     then [Text [CHR 0x0A], Value (property err ''detail'')]
                     else [Text []]))) w1)"
    by simp
next
  assume s: "spawnPublish opts st w = (Inr out, st1, w1)"
    and e: \<open>out = ''prepublish hook ran'' @ [CHR 0x0A] @ ''{"published":true}''
          \<and> JSON_parse w ''{"published":true}'' = Some (JObject [(''published'', JBool True)])\<close>
  from e have \<open>replace_non_brace_prefix out = ''{"published":true}''\<close>
    by (simp add: replace_non_brace_prefix_eq)
  with e have "JSON_parse w (replace_non_brace_prefix out) = Some (JObject [(''published'', JBool True)])"
    by simp
  from internalPublish_no_error [OF s this]
  show "internalPublish pkgName opts st w = Some (Inr \<lparr>published = True\<rparr>, st1, w1)"
    by simp
next
  show \<open>replace_non_brace_prefix (''prepublish hook ran'' @ [CHR 0x0A] @ ''{"published":true}'')
        = ''{"published":true}''\<close>
    by (simp add: replace_non_brace_prefix_eq)
next
  assume \<open>JSON_parse w ''{"published":true}'' = Some (JObject [(''published'', JBool True)])\<close>
  then show \<open>jsonParse (replace_non_brace_prefix
                     (''prepublish hook ran'' @ [CHR 0x0A] @ ''{"published":true}'')) w
          = (Inr (JObject [(''published'', JBool True)]), w)\<close>
    by (simp add: replace_non_brace_prefix_eq jsonParse_def)
qed

theorem internalPublish_json_after_prefix_witness:
  \<open>jsonParse (replace_non_brace_prefix (''prepublish hook ran'' @ [CHR 0x0A] @ ''{"published":true}''))
      (demo_world False None (\<lambda>tr. Inr (''prepublish hook ran'' @ [CHR 0x0A] @ ''{"published":true}'')))
    = (Inr (JObject [(''published'', JBool True)]),
       demo_world False None (\<lambda>tr. Inr (''prepublish hook ran'' @ [CHR 0x0A] @ ''{"published":true}'')))
   \<and> internalPublish ''pkg'' demo_opts \<lparr>token = None, isRequired = Resolved False\<rparr>
      (demo_world False None
         (\<lambda>tr. Inr (''prepublish hook ran'' @ [CHR 0x0A] @ ''{"published":true}'')))
    = Some (Inr \<lparr>published = True\<rparr>, \<lparr>token = None, isRequired = Resolved False\<rparr>,
        emit (Spawn ''npm'' [''publish'', ''/repo/pkg'', ''--json'', ''--access'', ''public'',
                 ''--tag'', ''latest''] None (Some ''https://registry.npmjs.org''))
          (demo_world False None
             (\<lambda>tr. Inr (''prepublish hook ran'' @ [CHR 0x0A] @ ''{"published":true}''))))
   \<and> internalPublish ''pkg'' demo_opts \<lparr>token = None, isRequired = Resolved False\<rparr>
      (demo_world False None (\<lambda>tr. Inr ''npm ERR! publish failed''))
    = Some (Inl SyntaxError, \<lparr>token = None, isRequired = Resolved False\<rparr>,
        emit (Log console_error [Text ''error parsing json:'', Text []])
         (emit (Spawn ''npm'' [''publish'', ''/repo/pkg'', ''--json'', ''--access'', ''public'',
                 ''--tag'', ''latest''] None (Some ''https://registry.npmjs.org''))
          (demo_world False None (\<lambda>tr. Inr ''npm ERR! publish failed''))))
   \<and> internalPublish ''pkg'' demo_opts \<lparr>token = None, isRequired = Resolved False\<rparr>
      (demo_world False None
         (\<lambda>tr. Inr (''npm notice'' @ [CHR 0x0A]
                    @ ''{"error":{"code":"E500","summary":"Internal Server Error"}}'')))
    = Some (Inr \<lparr>published = False\<rparr>, \<lparr>token = None, isRequired = Resolved False\<rparr>,
        emit (Log error [Text ''an error occurred while publishing '', Text ''pkg'', Text '': '',
                 Value (Some (JString ''E500'')), Value (Some (JString ''Internal Server Error'')),
                 Text []])
         (emit (Spawn ''npm'' [''publish'', ''/repo/pkg'', ''--json'', ''--access'', ''public'',
                 ''--tag'', ''latest''] None (Some ''https://registry.npmjs.org''))
          (demo_world False None
            (\<lambda>tr. Inr (''npm notice'' @ [CHR 0x0A]
                    @ ''{"error":{"code":"E500","summary":"Internal Server Error"}}'')))))\<close>
proof -
  let ?st = "\<lparr>token = None, isRequired = Resolved False\<rparr>"
  let ?sp = "Spawn ''npm'' [''publish'', ''/repo/pkg'', ''--json'', ''--access'', ''public'',
                 ''--tag'', ''latest''] None (Some ''https://registry.npmjs.org'')"
  let ?good = \<open>''prepublish hook ran'' @ [CHR 0x0A] @ ''{"published":true}''\<close>
  let ?bad = "''npm ERR! publish failed''"
  let ?err = \<open>''npm notice'' @ [CHR 0x0A] @ ''{"error":{"code":"E500","summary":"Internal Server Error"}}''\<close>
  let ?errobj = "JObject [(''error'', JObject [(''code'', JString ''E500''),
                    (''summary'', JString ''Internal Server Error'')])]"
  have sp: "spawnPublish demo_opts ?st (demo_world False None (\<lambda>tr. Inr out)) =
              (Inr out, ?st, emit ?sp (demo_world False None (\<lambda>tr. Inr out)))" for out
    by (simp add: spawnPublish_def getPublishTool_def getCorrectRegistry_def demo_world_def
          demo_opts_def emit_def)
  have jp: "JSON_parse (demo_world False None f) = demo_JSON_parse" for f
    by (simp add: demo_world_def)
  have c: \<open>demo_JSON_parse ''{"published":true}'' = Some (JObject [(''published'', JBool True)])\<close>
    by (simp add: demo_JSON_parse_def)
  have d: "demo_JSON_parse (replace_non_brace_prefix ?bad) = None"
    by (simp add: demo_JSON_parse_def replace_non_brace_prefix_def)
  have e: "demo_JSON_parse (replace_non_brace_prefix ?err) = Some ?errobj"
    by (simp add: demo_JSON_parse_def replace_non_brace_prefix_def)
  note G = internalPublish_json_after_prefix
             [of ?good "demo_world False None (\<lambda>tr. Inr ?good)" demo_opts ?st ?st
                 "emit ?sp (demo_world False None (\<lambda>tr. Inr ?good))" "''pkg''"]
  note B = internalPublish_json_after_prefix
             [of ?bad "demo_world False None (\<lambda>tr. Inr ?bad)" demo_opts ?st ?st
                 "emit ?sp (demo_world False None (\<lambda>tr. Inr ?bad))" "''pkg''"]
  note E = internalPublish_json_after_prefix
             [of ?err "demo_world False None (\<lambda>tr. Inr ?err)" demo_opts ?st ?st
                 "emit ?sp (demo_world False None (\<lambda>tr. Inr ?err))" "''pkg''"]
  note G4 = G [THEN conjunct2, THEN conjunct2, THEN conjunct2, THEN conjunct1, rule_format, OF sp]
  note B4 = B [THEN conjunct2, THEN conjunct2, THEN conjunct2, THEN conjunct1, rule_format, OF sp]
  note E4 = E [THEN conjunct2, THEN conjunct2, THEN conjunct2, THEN conjunct1, rule_format, OF sp]
  have 0: "jsonParse (replace_non_brace_prefix ?good) (demo_world False None (\<lambda>tr. Inr ?good))
            = (Inr (JObject [(''published'', JBool True)]), demo_world False None (\<lambda>tr. Inr ?good))"
    by (rule G [THEN conjunct2, THEN conjunct2, THEN conjunct2, THEN conjunct2, THEN conjunct2, rule_format])
       (simp add: jp c)
  have 1: "internalPublish ''pkg'' demo_opts ?st (demo_world False None (\<lambda>tr. Inr ?good))
            = Some (Inr \<lparr>published = True\<rparr>, ?st, emit ?sp (demo_world False None (\<lambda>tr. Inr ?good)))"
    by (rule G4 [THEN conjunct2, THEN conjunct2, THEN conjunct2, rule_format])
       (simp add: jp c)
  have 2: "internalPublish ''pkg'' demo_opts ?st (demo_world False None (\<lambda>tr. Inr ?bad))
            = Some (Inl SyntaxError, ?st,
                emit (Log console_error [Text ''error parsing json:'', Text (replace_non_brace_prefix ?bad)])
                  (emit ?sp (demo_world False None (\<lambda>tr. Inr ?bad))))"
    by (rule B4 [THEN conjunct1, rule_format]) (simp add: jp d)
  have 3: "internalPublish ''pkg'' demo_opts ?st (demo_world False None (\<lambda>tr. Inr ?err))
            = Some (Inr \<lparr>published = False\<rparr>, ?st,
                emit (Log error
                 ([Text ''an error occurred while publishing '', Text ''pkg'',
                   Text '': '', Value (property (property (Some ?errobj) ''error'') ''code''),
                   Value (property (property (Some ?errobj) ''error'') ''summary'')]
                  @ (if truthy (property (property (Some ?errobj) ''error'') ''detail'')
                     then [Text [CHR 0x0A], Value (property (property (Some ?errobj) ''error'') ''detail'')]
                     else [Text []])))
                  (emit ?sp (demo_world False None (\<lambda>tr. Inr ?err))))"
    apply (rule E4 [THEN conjunct2, THEN conjunct2, THEN conjunct1, rule_format, of ?errobj])
    using e apply (simp add: jp isOtpError_def)
    done
  have rb: "replace_non_brace_prefix ?bad = []"
    by (simp add: replace_non_brace_prefix_def)
  from 0 1 2 3 show ?thesis
    by (simp add: rb)
qed

subsection \<open>The retry edge\<close>

text \<open>
  C1. One-time password retry: outside CI, when the output of the publish command
  parses to a value whose \<^verbatim>\<open>error.code\<close> is \<^verbatim>\<open>EOTP\<close>, or is \<^verbatim>\<open>E401\<close> with a
  \<^verbatim>\<open>detail\<close> text that contains \<^verbatim>\<open>--otp=<code>\<close>, \<^verbatim>\<open>internalPublish\<close> does not
  return but runs again, for the same package and options, on the same state with the
  token cleared and \<^verbatim>\<open>isRequired\<close> resolved to true. The second pass is the pass of
  that state: it asks \<^verbatim>\<open>getOtpCode\<close> for a password on the cleared state and spawns
  the publish command with it; and what the first call returns is what the second pass
  yields: its exception when the spawn rejects or the output does not parse,
  \<open>published = True\<close> when the output has no truthy \<^verbatim>\<open>error\<close>, \<open>published = False\<close> when
  it has an error that is not about a one-time password, each with the state and the
  trace of the second pass.
\<close>

theorem internalPublish_otp_retry:
  assumes "\<not> isCI w"
    and "spawnPublish opts st w = (Inr out, st1, w1)"
    and "JSON_parse w (replace_non_brace_prefix out) = Some json"
    and "property (Some json) ''error'' = err"
    and "property err ''code'' = Some (JString ''EOTP'')
         \<or> (property err ''code'' = Some (JString ''E401'')
            \<and> (\<exists>detail. property err ''detail'' = Some (JString detail)
                  \<and> str_includes detail ''--otp=<code>''))"
    and "retry = st1\<lparr>token := None, isRequired := Resolved True\<rparr>"
  shows "internalPublish pkgName opts st w = internalPublish pkgName opts retry w1
     \<and> (\<forall>tool w2 otpCode st3 w3.
           getPublishTool (cwd opts) w1 = (Inr tool, w2) \<and> getOtpCode retry w2 = (otpCode, st3, w3) \<longrightarrow>
           token st3 = Some otpCode
           \<and> spawnPublish opts retry w1 =
               (spawn w (trace w3 @
                  [Spawn (tool_name tool)
                     ((if tool = Yarn True then [''npm''] else [])
                      @ [''publish'', cwd opts, ''--json'']
                      @ (case access opts of None \<Rightarrow> [] | Some a \<Rightarrow> if a = [] then [] else [''--access'', a])
                      @ [''--tag'', tag opts]
                      @ [''--otp'', otpCode]
                      @ (if tool = Pnpm True then [''--no-git-checks''] else []))
                     None (Some (getCorrectRegistry None (npm_config_registry w)))]),
                st3,
                emit (Spawn (tool_name tool)
                     ((if tool = Yarn True then [''npm''] else [])
                      @ [''publish'', cwd opts, ''--json'']
                      @ (case access opts of None \<Rightarrow> [] | Some a \<Rightarrow> if a = [] then [] else [''--access'', a])
                      @ [''--tag'', tag opts]
                      @ [''--otp'', otpCode]
                      @ (if tool = Pnpm True then [''--no-git-checks''] else []))
                     None (Some (getCorrectRegistry None (npm_config_registry w)))) w3))
     \<and> (\<forall>e st2 w2. spawnPublish opts retry w1 = (Inl e, st2, w2) \<longrightarrow>
           internalPublish pkgName opts st w = Some (Inl e, st2, w2))
     \<and> (\<forall>out2 st2 w2. spawnPublish opts retry w1 = (Inr out2, st2, w2) \<longrightarrow>
           (JSON_parse w (replace_non_brace_prefix out2) = None \<longrightarrow>
              internalPublish pkgName opts st w =
                Some (Inl SyntaxError, st2,
                  emit (Log console_error
                    [Text ''error parsing json:'', Text (replace_non_brace_prefix out2)]) w2))
         \<and> (\<forall>json2. JSON_parse w (replace_non_brace_prefix out2) = Some json2 \<and> json2 \<noteq> JNull
                 \<and> \<not> truthy (property (Some json2) ''error'') \<longrightarrow>
              internalPublish pkgName opts st w = Some (Inr \<lparr>published = True\<rparr>, st2, w2))
         \<and> (\<forall>json2 err2. JSON_parse w (replace_non_brace_prefix out2) = Some json2
                 \<and> property (Some json2) ''error'' = err2 \<and> truthy err2
                 \<and> isOtpError err2 = Inr False \<longrightarrow>
              internalPublish pkgName opts st w =
                Some (Inr \<lparr>published = False\<rparr>, st2,
                  emit (Log error
                    ([Text ''an error occurred while publishing '', Text pkgName,
                      Text '': '', Value (property err2 ''code''),
                      Value (property err2 ''summary'')]
                     @ (if truthy (property err2 ''detail'')
                        then [Text [CHR 0x0A], Value (property err2 ''detail'')]
                        else [Text []]))) w2)))"
proof -
  from assms(5) obtain c where c: "property err ''code'' = Some c" by auto
  then have t: "truthy err" by (rule code_Some_truthy)
  then obtain e where "err = Some e" by (cases err) auto
  with assms(4) have g: "getProp (Some json) ''error'' = Inr err"
    by (simp add: property_Some_getProp)
  from assms(5) have o: "isOtpError err = Inr True"
    by (auto simp add: isOtpError_def)
  from internalPublish_parsed [OF assms(2) assms(3) g t o] assms(1) assms(6)
  have step: "internalPublish pkgName opts st w = internalPublish pkgName opts retry w1"
    by simp
  from assms(2) have ext: "extends w w1" by (rule spawnPublish_extends)
  then have env: "isCI w1 = isCI w" "JSON_parse w1 = JSON_parse w"
    "npm_config_registry w1 = npm_config_registry w" "spawn w1 = spawn w"
    by (simp_all add: extends_def)
  have req: "isRequired retry = Resolved True" by (simp add: assms(6))
  have ci: "\<not> isCI w1" using assms(1) env by simp
  show ?thesis
  proof (intro conjI allI impI)
    show "internalPublish pkgName opts st w = internalPublish pkgName opts retry w1"
      by (rule step)
  next
    fix tool w2 otpCode st3 w3
    assume h: "getPublishTool (cwd opts) w1 = (Inr tool, w2) \<and> getOtpCode retry w2 = (otpCode, st3, w3)"
    then show "token st3 = Some otpCode"
      by (auto simp add: getOtpCode_def askForOtpCode_def Let_def split: option.splits)
    from h spawnPublish_with_otp [OF ci req, of opts tool w2 otpCode st3 w3] env
    show "spawnPublish opts retry w1 =
               (spawn w (trace w3 @
                  [Spawn (tool_name tool)
                     ((if tool = Yarn True then [''npm''] else [])
                      @ [''publish'', cwd opts, ''--json'']
                      @ (case access opts of None \<Rightarrow> [] | Some a \<Rightarrow> if a = [] then [] else [''--access'', a])
                      @ [''--tag'', tag opts]
                      @ [''--otp'', otpCode]
                      @ (if tool = Pnpm True then [''--no-git-checks''] else []))
                     None (Some (getCorrectRegistry None (npm_config_registry w)))]),
                st3,
                emit (Spawn (tool_name tool)
                     ((if tool = Yarn True then [''npm''] else [])
                      @ [''publish'', cwd opts, ''--json'']
                      @ (case access opts of None \<Rightarrow> [] | Some a \<Rightarrow> if a = [] then [] else [''--access'', a])
                      @ [''--tag'', tag opts]
                      @ [''--otp'', otpCode]
                      @ (if tool = Pnpm True then [''--no-git-checks''] else []))
                     None (Some (getCorrectRegistry None (npm_config_registry w)))) w3)"
      by simp
  next
    fix e st2 w2
    assume "spawnPublish opts retry w1 = (Inl e, st2, w2)"
    then have "internalPublish pkgName opts retry w1 = Some (Inl e, st2, w2)"
      by (rule internalPublish_rejected)
    with step show "internalPublish pkgName opts st w = Some (Inl e, st2, w2)" by simp
  next
    fix out2 st2 w2
    assume s: "spawnPublish opts retry w1 = (Inr out2, st2, w2)"
      and "JSON_parse w (replace_non_brace_prefix out2) = None"
    then have "JSON_parse w1 (replace_non_brace_prefix out2) = None" using env by simp
    from internalPublish_unparsed [OF s this] step
    show "internalPublish pkgName opts st w =
                Some (Inl SyntaxError, st2,
                  emit (Log console_error
                    [Text ''error parsing json:'', Text (replace_non_brace_prefix out2)]) w2)"
      by simp
  next
    fix out2 st2 w2 json2
    assume s: "spawnPublish opts retry w1 = (Inr out2, st2, w2)"
      and h: "JSON_parse w (replace_non_brace_prefix out2) = Some json2 \<and> json2 \<noteq> JNull
                 \<and> \<not> truthy (property (Some json2) ''error'')"
    then have p: "JSON_parse w1 (replace_non_brace_prefix out2) = Some json2" using env by simp
    from h have n: "json2 \<noteq> JNull" and f: "\<not> truthy (property (Some json2) ''error'')" by simp_all
    from internalPublish_no_error [OF s p n f] step
    show "internalPublish pkgName opts st w = Some (Inr \<lparr>published = True\<rparr>, st2, w2)"
      by simp
  next
    fix out2 st2 w2 json2 err2
    assume s: "spawnPublish opts retry w1 = (Inr out2, st2, w2)"
      and h: "JSON_parse w (replace_non_brace_prefix out2) = Some json2
                 \<and> property (Some json2) ''error'' = err2 \<and> truthy err2
                 \<and> isOtpError err2 = Inr False"
    then have p: "JSON_parse w1 (replace_non_brace_prefix out2) = Some json2" using env by simp
    from h have t2: "truthy err2" and o2: "isOtpError err2 = Inr False" by simp_all
    from h have "json2 \<noteq> JNull" by auto
    with h have g2: "getProp (Some json2) ''error'' = Inr err2" by (simp add: getProp_not_null)
    from internalPublish_parsed [OF s p g2 t2 o2, of pkgName] step
    show "internalPublish pkgName opts st w =
                Some (Inr \<lparr>published = False\<rparr>, st2,
                  emit (Log error
                    ([Text ''an error occurred while publishing '', Text pkgName,
                      Text '': '', Value (property err2 ''code''),
                      Value (property err2 ''summary'')]
                     @ (if truthy (property err2 ''detail'')
                        then [Text [CHR 0x0A], Value (property err2 ''detail'')]
                        else [Text []]))) w2)"
      by simp
  qed
qed

theorem internalPublish_otp_retry_witness:
  \<open>internalPublish ''pkg'' demo_opts \<lparr>token = Some ''111111'', isRequired = Resolved True\<rparr>
      (demo_world False None otp_registry)
    = Some (Inr \<lparr>published = True\<rparr>, \<lparr>token = Some ''222222'', isRequired = Resolved True\<rparr>,
        (demo_world False None otp_registry)
          \<lparr>trace :=
             [Spawn ''npm'' [''publish'', ''/repo/pkg'', ''--json'', ''--access'', ''public'',
                 ''--tag'', ''latest'', ''--otp'', ''111111''] None (Some ''https://registry.npmjs.org''),
              Enter otpAskLimit,
              Log info [Text ''This operation requires a one-time password from your authenticator.''],
              AskQuestion ''Enter one-time password:'',
              Leave otpAskLimit,
              Spawn ''npm'' [''publish'', ''/repo/pkg'', ''--json'', ''--access'', ''public'',
                 ''--tag'', ''latest'', ''--otp'', ''222222''] None (Some ''https://registry.npmjs.org'')]\<rparr>)\<close>
proof -
  let ?w = "demo_world False None otp_registry"
  let ?st = "\<lparr>token = Some ''111111'', isRequired = Resolved True\<rparr>"
  let ?retry = "\<lparr>token = None, isRequired = Resolved True\<rparr>"
  let ?st2 = "\<lparr>token = Some ''222222'', isRequired = Resolved True\<rparr>"
  let ?w1 = "emit (Spawn ''npm'' [''publish'', ''/repo/pkg'', ''--json'', ''--access'', ''public'',
                 ''--tag'', ''latest'', ''--otp'', ''111111''] None (Some ''https://registry.npmjs.org'')) ?w"
  let ?w2 = "emit (Spawn ''npm'' [''publish'', ''/repo/pkg'', ''--json'', ''--access'', ''public'',
                 ''--tag'', ''latest'', ''--otp'', ''222222''] None (Some ''https://registry.npmjs.org''))
         (emit (Leave otpAskLimit) (emit (AskQuestion ''Enter one-time password:'')
           (emit (Log info [Text ''This operation requires a one-time password from your authenticator.''])
             (emit (Enter otpAskLimit) ?w1))))"
  let ?out2 = \<open>''+ pkg@1.0.0'' @ [CHR 0x0A] @ ''{"id":"pkg@1.0.0"}''\<close>
  have ci: "\<not> isCI ?w" by (simp add: demo_defs)
  have sp: \<open>spawnPublish demo_opts ?st ?w =
      (Inr ''{"error":{"code":"E401","detail":"pass --otp=<code> to the command"}}'', ?st, ?w1)\<close>
    by (simp add: spawnPublish_def getPublishTool_def getOtpCode_def getCorrectRegistry_def demo_defs emit_def)
  have js: \<open>JSON_parse ?w (replace_non_brace_prefix
               ''{"error":{"code":"E401","detail":"pass --otp=<code> to the command"}}'')
      = Some (JObject [(''error'', JObject [(''code'', JString ''E401''),
                    (''detail'', JString ''pass --otp=<code> to the command'')])])\<close>
    by (simp add: replace_non_brace_prefix_def demo_defs)
  have otp: \<open>property (property (Some (JObject [(''error'', JObject [(''code'', JString ''E401''),
                    (''detail'', JString ''pass --otp=<code> to the command'')])])) ''error'') ''code''
        = Some (JString ''EOTP'')
      \<or> (property (property (Some (JObject [(''error'', JObject [(''code'', JString ''E401''),
                    (''detail'', JString ''pass --otp=<code> to the command'')])])) ''error'') ''code''
            = Some (JString ''E401'')
         \<and> (\<exists>detail. property (property (Some (JObject [(''error'', JObject [(''code'', JString ''E401''),
                    (''detail'', JString ''pass --otp=<code> to the command'')])])) ''error'') ''detail''
                 = Some (JString detail)
               \<and> str_includes detail ''--otp=<code>''))\<close>
    by simp
  have rt: "?retry = ?st\<lparr>token := None, isRequired := Resolved True\<rparr>" by simp
  have sp2: "spawnPublish demo_opts ?retry ?w1 = (Inr ?out2, ?st2, ?w2)"
    by (simp add: spawnPublish_def getPublishTool_def getOtpCode_def askForOtpCode_def
          getCorrectRegistry_def demo_defs emit_def Let_def)
  have js2: "JSON_parse ?w (replace_non_brace_prefix ?out2) = Some (JObject [(''id'', JString ''pkg@1.0.0'')])"
    by (simp add: replace_non_brace_prefix_def demo_defs)
  note second_pass =
    internalPublish_otp_retry [OF ci sp js refl otp rt, of "''pkg''",
      THEN conjunct2, THEN conjunct2, THEN conjunct2, rule_format, OF sp2,
      THEN conjunct2, THEN conjunct1, rule_format, of "JObject [(''id'', JString ''pkg@1.0.0'')]"]
  from js2 have "internalPublish ''pkg'' demo_opts ?st ?w = Some (Inr \<lparr>published = True\<rparr>, ?st2, ?w2)"
    by (intro second_pass) simp
  then show ?thesis by (simp add: emit_def demo_defs)
qed

subsection \<open>Errors that end the publish\<close>

text \<open>
  C2. Terminal failure: an \<^verbatim>\<open>error\<close> whose code is neither \<^verbatim>\<open>EOTP\<close> nor an \<^verbatim>\<open>E401\<close>
  with the flag in its detail is reported and answered with \<open>published = False\<close>,
  without a retry and without an exception; an \<^verbatim>\<open>E401\<close> with no
  \<^verbatim>\<open>detail\<close> at all is named as such an error. The code does not do that: on the output
  \<^verbatim>\<open>{"error":{"code":"E401"}}\<close> it calls \<^verbatim>\<open>includes\<close> on \<^verbatim>\<open>undefined\<close>, and the
  TypeError leaves \<^verbatim>\<open>internalPublish\<close>, in CI and outside it, before anything is
  reported. The theorem evaluates the code there.
\<close>

theorem internalPublish_E401_without_detail:
  \<open>internalPublish ''pkg'' demo_opts \<lparr>token = None, isRequired = Resolved False\<rparr>
      (demo_world ci None (\<lambda>tr. Inr ''{"error":{"code":"E401"}}''))
    = Some (Inl TypeError, \<lparr>token = None, isRequired = Resolved False\<rparr>,
        emit (Spawn ''npm'' [''publish'', ''/repo/pkg'', ''--json'', ''--access'', ''public'',
                 ''--tag'', ''latest''] None (Some ''https://registry.npmjs.org''))
          (demo_world ci None (\<lambda>tr. Inr ''{"error":{"code":"E401"}}'')))\<close>
  by (subst internalPublish.simps)
     (simp add: spawnPublish_def getPublishTool_def getCorrectRegistry_def jsonParse_def
        replace_non_brace_prefix_def isOtpError_def demo_defs emit_def)

subsection \<open>No prompt in CI\<close>

text \<open>
  C7. In CI, with \<^verbatim>\<open>isRequired\<close> resolved to true (whatever the token),
  \<^verbatim>\<open>internalPublish\<close> never asks for a one-time password: the publish command is
  spawned with the arguments below, none of them added for a password, the state is
  left as it was, and up to that point the trace holds nothing but the version probe of
  the tool detection, if any; and when the registry answers with \<^verbatim>\<open>EOTP\<close>, or with
  \<^verbatim>\<open>E401\<close> and the flag in the detail, the call reports the error and returns
  \<open>published = False\<close> instead of trying again.
\<close>

theorem internalPublish_CI_no_prompt:
  assumes "isCI w"
    and "getPublishTool (cwd opts) w = (Inr tool, w1)"
    and "isRequired st = Resolved True"
    and "publishArgs =
           (if tool = Yarn True then [''npm''] else [])
           @ [''publish'', cwd opts, ''--json'']
           @ (case access opts of None \<Rightarrow> [] | Some a \<Rightarrow> if a = [] then [] else [''--access'', a])
           @ [''--tag'', tag opts]
           @ (if tool = Pnpm True then [''--no-git-checks''] else [])"
    and "w2 = emit (Spawn (tool_name tool) publishArgs None
                 (Some (getCorrectRegistry None (npm_config_registry w)))) w1"
  shows "spawnPublish opts st w = (spawn w (trace w2), st, w2)
     \<and> (trace w1 = trace w
         \<or> (\<exists>pm. trace w1 = trace w @ [Spawn pm [''--version''] (Some (cwd opts)) None]))
     \<and> (\<forall>out json err.
           spawn w (trace w2) = Inr out
           \<and> JSON_parse w (replace_non_brace_prefix out) = Some json
           \<and> property (Some json) ''error'' = err
           \<and> (property err ''code'' = Some (JString ''EOTP'')
              \<or> (property err ''code'' = Some (JString ''E401'')
                 \<and> (\<exists>detail. property err ''detail'' = Some (JString detail)
                       \<and> str_includes detail ''--otp=<code>''))) \<longrightarrow>
           internalPublish pkgName opts st w =
             Some (Inr \<lparr>published = False\<rparr>, st,
               emit (Log error
                 ([Text ''an error occurred while publishing '', Text pkgName,
                   Text '': '', Value (property err ''code''),
                   Value (property err ''summary'')]
                  @ (if truthy (property err ''detail'')
                     then [Text [CHR 0x0A], Value (property err ''detail'')]
                     else [Text []]))) w2))"
proof (intro conjI allI impI)
  from assms(2) have e: "extends w w1" by (rule getPublishTool_extends)
  then have env: "isCI w1 = isCI w" "npm_config_registry w1 = npm_config_registry w" "spawn w1 = spawn w"
    by (simp_all add: extends_def)
  with assms show sp: "spawnPublish opts st w = (spawn w (trace w2), st, w2)"
    by (simp add: spawnPublish_def Let_def)
  from assms(2) show "trace w1 = trace w
         \<or> (\<exists>pm. trace w1 = trace w @ [Spawn pm [''--version''] (Some (cwd opts)) None])"
    by (rule getPublishTool_trace)
  fix out json err
  assume h: "spawn w (trace w2) = Inr out
           \<and> JSON_parse w (replace_non_brace_prefix out) = Some json
           \<and> property (Some json) ''error'' = err
           \<and> (property err ''code'' = Some (JString ''EOTP'')
              \<or> (property err ''code'' = Some (JString ''E401'')
                 \<and> (\<exists>detail. property err ''detail'' = Some (JString detail)
                       \<and> str_includes detail ''--otp=<code>'')))"
  then obtain c where "property err ''code'' = Some c" by auto
  then have t: "truthy err" by (rule code_Some_truthy)
  then obtain e where "err = Some e" by (cases err) auto
  with h have g: "getProp (Some json) ''error'' = Inr err"
    by (auto simp add: property_Some_getProp)
  from h have o: "isOtpError err = Inr True"
    by (auto simp add: isOtpError_def)
  from sp h have sp': "spawnPublish opts st w = (Inr out, st, w2)" by simp
  from h have p: "JSON_parse w (replace_non_brace_prefix out) = Some json" by simp
  from internalPublish_parsed [OF sp' p g t o] assms(1)
  show "internalPublish pkgName opts st w =
             Some (Inr \<lparr>published = False\<rparr>, st,
               emit (Log error
                 ([Text ''an error occurred while publishing '', Text pkgName,
                   Text '': '', Value (property err ''code''),
                   Value (property err ''summary'')]
                  @ (if truthy (property err ''detail'')
                     then [Text [CHR 0x0A], Value (property err ''detail'')]
                     else [Text []]))) w2)"
    by simp
qed

theorem internalPublish_CI_no_prompt_witness:
  \<open>internalPublish ''pkg'' demo_opts \<lparr>token = None, isRequired = Resolved True\<rparr>
      (demo_world True None (\<lambda>tr. Inr ''{"error":{"code":"EOTP"}}''))
    = Some (Inr \<lparr>published = False\<rparr>, \<lparr>token = None, isRequired = Resolved True\<rparr>,
        (demo_world True None (\<lambda>tr. Inr ''{"error":{"code":"EOTP"}}''))
          \<lparr>trace :=
             [Spawn ''npm'' [''publish'', ''/repo/pkg'', ''--json'', ''--access'', ''public'',
                 ''--tag'', ''latest''] None (Some ''https://registry.npmjs.org''),
              Log error [Text ''an error occurred while publishing '', Text ''pkg'', Text '': '',
                 Value (Some (JString ''EOTP'')), Value None, Text []]]\<rparr>)\<close>
proof -
  let ?w = \<open>demo_world True None (\<lambda>tr. Inr ''{"error":{"code":"EOTP"}}'')\<close>
  let ?st = "\<lparr>token = None, isRequired = Resolved True\<rparr>"
  let ?args = "[''publish'', ''/repo/pkg'', ''--json'', ''--access'', ''public'', ''--tag'', ''latest'']"
  let ?w2 = "emit (Spawn ''npm'' ?args None (Some ''https://registry.npmjs.org'')) ?w"
  have 1: "isCI ?w" by (simp add: demo_defs)
  have 2: "getPublishTool (cwd demo_opts) ?w = (Inr Npm, ?w)"
    by (simp add: getPublishTool_def demo_defs)
  have 3: "isRequired ?st = Resolved True" by simp
  have 4: "?args = (if Npm = Yarn True then [''npm''] else [])
           @ [''publish'', cwd demo_opts, ''--json'']
           @ (case access demo_opts of None \<Rightarrow> [] | Some a \<Rightarrow> if a = [] then [] else [''--access'', a])
           @ [''--tag'', tag demo_opts]
           @ (if Npm = Pnpm True then [''--no-git-checks''] else [])"
    by (simp add: demo_defs)
  have 5: "?w2 = emit (Spawn (tool_name Npm) ?args None
                 (Some (getCorrectRegistry None (npm_config_registry ?w)))) ?w"
    by (simp add: getCorrectRegistry_def demo_defs)
  have 6: \<open>spawn ?w (trace ?w2) = Inr ''{"error":{"code":"EOTP"}}''\<close>
    by (simp add: demo_defs)
  have 7: \<open>JSON_parse ?w (replace_non_brace_prefix ''{"error":{"code":"EOTP"}}'')
      = Some (JObject [(''error'', JObject [(''code'', JString ''EOTP'')])])\<close>
    by (simp add: replace_non_brace_prefix_def demo_defs)
  from internalPublish_CI_no_prompt [OF 1 2 3 4 5, of "''pkg''"] 6 7
  have "internalPublish ''pkg'' demo_opts ?st ?w =
      Some (Inr \<lparr>published = False\<rparr>, ?st,
        emit (Log error [Text ''an error occurred while publishing '', Text ''pkg'', Text '': '',
                 Value (Some (JString ''EOTP'')), Value None, Text []]) ?w2)"
    by simp
  then show ?thesis by (simp add: emit_def demo_defs)
qed

subsection \<open>The one-time password\<close>

text \<open>
  C8. \<^verbatim>\<open>getOtpCode\<close>: a token that is set is returned at once, with no event at all;
  otherwise the call enters the prompt gate, looks at the token again as the other
  callers have left it in the meantime and returns it when one of them has set it;
  otherwise it prompts the operator, stores the answer in \<^verbatim>\<open>token\<close> and returns it.
  In every case the token of the state is the returned value afterwards.
\<close>

theorem getOtpCode_contract:
  "(\<forall>t. token st = Some t \<longrightarrow> getOtpCode st w = (t, st, w))
   \<and> (token st = None \<longrightarrow>
        (\<forall>t. token (whileQueued w (trace w @ [Enter otpAskLimit]) st) = Some t \<longrightarrow>
           getOtpCode st w =
             (t, whileQueued w (trace w @ [Enter otpAskLimit]) st,
              emit (Leave otpAskLimit) (emit (Enter otpAskLimit) w)))
      \<and> (token (whileQueued w (trace w @ [Enter otpAskLimit]) st) = None \<longrightarrow>
           getOtpCode st w =
             (askQuestion w
                (trace w @
                  [Enter otpAskLimit,
                   Log info [Text ''This operation requires a one-time password from your authenticator.''],
                   AskQuestion ''Enter one-time password:'']),
              (whileQueued w (trace w @ [Enter otpAskLimit]) st)
                \<lparr>token := Some (askQuestion w
                   (trace w @
                     [Enter otpAskLimit,
                      Log info [Text ''This operation requires a one-time password from your authenticator.''],
                      AskQuestion ''Enter one-time password:'']))\<rparr>,
              emit (Leave otpAskLimit)
                (emit (AskQuestion ''Enter one-time password:'')
                  (emit (Log info [Text ''This operation requires a one-time password from your authenticator.''])
                    (emit (Enter otpAskLimit) w))))))
   \<and> (\<forall>t st' w'. getOtpCode st w = (t, st', w') \<longrightarrow> token st' = Some t)
   \<and> pLimit otpAskLimit = 1"
  by (auto simp add: getOtpCode_def askForOtpCode_def Let_def split: option.splits)

theorem getOtpCode_contract_witness:
  "getOtpCode \<lparr>token = Some ''111111'', isRequired = Resolved True\<rparr> (demo_world False None otp_registry)
     = (''111111'', \<lparr>token = Some ''111111'', isRequired = Resolved True\<rparr>,
        demo_world False None otp_registry)
   \<and> getOtpCode \<lparr>token = None, isRequired = Resolved True\<rparr>
        ((demo_world False None otp_registry)\<lparr>whileQueued := other_caller\<rparr>)
     = (''333333'', \<lparr>token = Some ''333333'', isRequired = Resolved True\<rparr>,
        emit (Leave otpAskLimit) (emit (Enter otpAskLimit)
          ((demo_world False None otp_registry)\<lparr>whileQueued := other_caller\<rparr>)))
   \<and> getOtpCode \<lparr>token = None, isRequired = Resolved True\<rparr> (demo_world False None otp_registry)
     = (''222222'', \<lparr>token = Some ''222222'', isRequired = Resolved True\<rparr>,
        emit (Leave otpAskLimit)
          (emit (AskQuestion ''Enter one-time password:'')
            (emit (Log info [Text ''This operation requires a one-time password from your authenticator.''])
              (emit (Enter otpAskLimit) (demo_world False None otp_registry)))))"
proof -
  let ?w = "demo_world False None otp_registry"
  have t1: "token \<lparr>token = Some ''111111'', isRequired = Resolved True\<rparr> = Some ''111111''"
    by simp
  have t2: "token \<lparr>token = None, isRequired = Resolved True\<rparr> = None"
    by simp
  have q1: "token (whileQueued (?w\<lparr>whileQueued := other_caller\<rparr>)
              (trace (?w\<lparr>whileQueued := other_caller\<rparr>) @ [Enter otpAskLimit])
              \<lparr>token = None, isRequired = Resolved True\<rparr>) = Some ''333333''"
    by (simp add: other_caller_def)
  have q2: "token (whileQueued ?w (trace ?w @ [Enter otpAskLimit])
              \<lparr>token = None, isRequired = Resolved True\<rparr>) = None"
    by (simp add: demo_world_def)
  from getOtpCode_contract [of "\<lparr>token = Some ''111111'', isRequired = Resolved True\<rparr>" ?w] t1
  have 1: "getOtpCode \<lparr>token = Some ''111111'', isRequired = Resolved True\<rparr> ?w
     = (''111111'', \<lparr>token = Some ''111111'', isRequired = Resolved True\<rparr>, ?w)"
    by blast
  from getOtpCode_contract [of "\<lparr>token = None, isRequired = Resolved True\<rparr>"
      "?w\<lparr>whileQueued := other_caller\<rparr>"] t2 q1
  have 2: "getOtpCode \<lparr>token = None, isRequired = Resolved True\<rparr> (?w\<lparr>whileQueued := other_caller\<rparr>)
     = (''333333'',
        whileQueued (?w\<lparr>whileQueued := other_caller\<rparr>)
              (trace (?w\<lparr>whileQueued := other_caller\<rparr>) @ [Enter otpAskLimit])
              \<lparr>token = None, isRequired = Resolved True\<rparr>,
        emit (Leave otpAskLimit) (emit (Enter otpAskLimit) (?w\<lparr>whileQueued := other_caller\<rparr>)))"
    by blast
  from getOtpCode_contract [of "\<lparr>token = None, isRequired = Resolved True\<rparr>" ?w] t2 q2
  have 3: "getOtpCode \<lparr>token = None, isRequired = Resolved True\<rparr> ?w
     = (askQuestion ?w
                (trace ?w @
                  [Enter otpAskLimit,
                   Log info [Text ''This operation requires a one-time password from your authenticator.''],
                   AskQuestion ''Enter one-time password:'']),
        (whileQueued ?w (trace ?w @ [Enter otpAskLimit]) \<lparr>token = None, isRequired = Resolved True\<rparr>)
                \<lparr>token := Some (askQuestion ?w
                   (trace ?w @
                     [Enter otpAskLimit,
                      Log info [Text ''This operation requires a one-time password from your authenticator.''],
                      AskQuestion ''Enter one-time password:'']))\<rparr>,
        emit (Leave otpAskLimit)
          (emit (AskQuestion ''Enter one-time password:'')
            (emit (Log info [Text ''This operation requires a one-time password from your authenticator.''])
              (emit (Enter otpAskLimit) ?w))))"
    by blast
  have a: "askQuestion ?w tr = ''222222''" "whileQueued ?w tr st = st" for tr st
    by (simp_all add: demo_world_def)
  from 1 2 3 show ?thesis
    by (simp add: a other_caller_def)
qed

subsection \<open>The two-factor profile\<close>

text \<open>
  C10, as amended. \<^verbatim>\<open>getTokenIsRequired\<close> spawns \<^verbatim>\<open>npm profile get --json\<close> with
  \<^verbatim>\<open>npm_config_registry\<close> overridden by the resolved registry; a rejection of the spawn
  is passed on; output that is not JSON throws the SyntaxError; and for every parsed
  value other than \<^verbatim>\<open>null\<close> the result is true exactly when the value has no truthy
  \<^verbatim>\<open>error\<close> and its \<^verbatim>\<open>tfa\<close> is an object whose \<^verbatim>\<open>mode\<close> is \<^verbatim>\<open>auth-and-writes\<close>,
  and false otherwise.
\<close>

theorem getTokenIsRequired_profile:
  "(\<forall>e. spawn w (trace w @ [Spawn ''npm'' [''profile'', ''get'', ''--json''] None
                  (Some (getCorrectRegistry None (npm_config_registry w)))]) = Inl e \<longrightarrow>
      getTokenIsRequired w =
        (Inl e, emit (Spawn ''npm'' [''profile'', ''get'', ''--json''] None
                  (Some (getCorrectRegistry None (npm_config_registry w)))) w))
   \<and> (\<forall>out. spawn w (trace w @ [Spawn ''npm'' [''profile'', ''get'', ''--json''] None
                  (Some (getCorrectRegistry None (npm_config_registry w)))]) = Inr out \<longrightarrow>
        (JSON_parse w out = None \<longrightarrow>
           getTokenIsRequired w =
             (Inl SyntaxError,
              emit (Log console_error [Text ''error parsing json:'', Text out])
                (emit (Spawn ''npm'' [''profile'', ''get'', ''--json''] None
                  (Some (getCorrectRegistry None (npm_config_registry w)))) w)))
      \<and> (\<forall>json. JSON_parse w out = Some json \<and> json \<noteq> JNull \<longrightarrow>
           getTokenIsRequired w =
             (Inr (\<not> truthy (property (Some json) ''error'')
                   \<and> (\<exists>tfa. property (Some json) ''tfa'' = Some (JObject tfa)
                         \<and> map_of tfa ''mode'' = Some (JString ''auth-and-writes''))),
              emit (Spawn ''npm'' [''profile'', ''get'', ''--json''] None
                  (Some (getCorrectRegistry None (npm_config_registry w)))) w)))"
proof -
  have mode: "(\<not> truthy (property v ''tfa'') \<longrightarrow>
                 \<not> (\<exists>tfa. property v ''tfa'' = Some (JObject tfa)
                         \<and> map_of tfa ''mode'' = Some (JString ''auth-and-writes'')))
      \<and> (\<not> truthy (property (property v ''tfa'') ''mode'') \<longrightarrow>
                 \<not> (\<exists>tfa. property v ''tfa'' = Some (JObject tfa)
                         \<and> map_of tfa ''mode'' = Some (JString ''auth-and-writes'')))
      \<and> ((property (property v ''tfa'') ''mode'' = Some (JString ''auth-and-writes''))
           = (\<exists>tfa. property v ''tfa'' = Some (JObject tfa)
                         \<and> map_of tfa ''mode'' = Some (JString ''auth-and-writes'')))" for v
  proof (cases "property v ''tfa''")
    case None
    then show ?thesis by simp
  next
    case (Some t)
    then show ?thesis by (cases t) auto
  qed
  have gp: "json \<noteq> JNull \<Longrightarrow> getProp (Some json) k = Inr (property (Some json) k)" for json k
    by (cases json) auto
  show ?thesis
    using mode by (auto simp add: getTokenIsRequired_def jsonParse_def Let_def gp)
qed

theorem getTokenIsRequired_profile_witness:
  \<open>getTokenIsRequired (demo_world False None (\<lambda>tr. Inr ''{"tfa":{"pending":false,"mode":"auth-and-writes"}}''))
     = (Inr True,
        emit (Spawn ''npm'' [''profile'', ''get'', ''--json''] None (Some ''https://registry.npmjs.org''))
          (demo_world False None (\<lambda>tr. Inr ''{"tfa":{"pending":false,"mode":"auth-and-writes"}}'')))
   \<and> getTokenIsRequired (demo_world False None (\<lambda>tr. Inr ''{"tfa":{"pending":false,"mode":"auth-only"}}''))
     = (Inr False,
        emit (Spawn ''npm'' [''profile'', ''get'', ''--json''] None (Some ''https://registry.npmjs.org''))
          (demo_world False None (\<lambda>tr. Inr ''{"tfa":{"pending":false,"mode":"auth-only"}}'')))
   \<and> getTokenIsRequired (demo_world False None (\<lambda>tr. Inr ''{"error":{"code":"E401"}}''))
     = (Inr False,
        emit (Spawn ''npm'' [''profile'', ''get'', ''--json''] None (Some ''https://registry.npmjs.org''))
          (demo_world False None (\<lambda>tr. Inr ''{"error":{"code":"E401"}}'')))
   \<and> getTokenIsRequired (demo_world False None (\<lambda>tr. Inr ''npm ERR! not logged in''))
     = (Inl SyntaxError,
        emit (Log console_error [Text ''error parsing json:'', Text ''npm ERR! not logged in''])
          (emit (Spawn ''npm'' [''profile'', ''get'', ''--json''] None (Some ''https://registry.npmjs.org''))
            (demo_world False None (\<lambda>tr. Inr ''npm ERR! not logged in''))))
   \<and> getTokenIsRequired (demo_world False None (\<lambda>tr. Inl (Rejection ''ENOENT'')))
     = (Inl (Rejection ''ENOENT''),
        emit (Spawn ''npm'' [''profile'', ''get'', ''--json''] None (Some ''https://registry.npmjs.org''))
          (demo_world False None (\<lambda>tr. Inl (Rejection ''ENOENT''))))\<close>
proof -
  have r: "getCorrectRegistry None (npm_config_registry (demo_world False None f)) = ''https://registry.npmjs.org''" for f
    by (simp add: getCorrectRegistry_def demo_world_def)
  have s: "spawn (demo_world False None f) tr = f tr" for f tr
    by (simp add: demo_world_def)
  have p: "JSON_parse (demo_world False None f) = demo_JSON_parse" for f
    by (simp add: demo_world_def)
  have 1: ?thesis if
    \<open>demo_JSON_parse ''{"tfa":{"pending":false,"mode":"auth-and-writes"}}'' =
       Some (JObject [(''tfa'', JObject [(''pending'', JBool False), (''mode'', JString ''auth-and-writes'')])])\<close>
    \<open>demo_JSON_parse ''{"tfa":{"pending":false,"mode":"auth-only"}}'' =
       Some (JObject [(''tfa'', JObject [(''pending'', JBool False), (''mode'', JString ''auth-only'')])])\<close>
    \<open>demo_JSON_parse ''{"error":{"code":"E401"}}'' =
       Some (JObject [(''error'', JObject [(''code'', JString ''E401'')])])\<close>
    \<open>demo_JSON_parse ''npm ERR! not logged in'' = None\<close>
    using
      getTokenIsRequired_profile [of \<open>demo_world False None (\<lambda>tr. Inr ''{"tfa":{"pending":false,"mode":"auth-and-writes"}}'')\<close>]
      getTokenIsRequired_profile [of \<open>demo_world False None (\<lambda>tr. Inr ''{"tfa":{"pending":false,"mode":"auth-only"}}'')\<close>]
      getTokenIsRequired_profile [of \<open>demo_world False None (\<lambda>tr. Inr ''{"error":{"code":"E401"}}'')\<close>]
      getTokenIsRequired_profile [of \<open>demo_world False None (\<lambda>tr. Inr ''npm ERR! not logged in'')\<close>]
      getTokenIsRequired_profile [of \<open>demo_world False None (\<lambda>tr. Inl (Rejection ''ENOENT''))\<close>]
    unfolding r s p by (simp add: that)
  show ?thesis
    by (rule 1) (simp_all add: demo_JSON_parse_def)
qed

text \<open>
  C10 as it is stated fails at two outputs. For the profile
  \<^verbatim>\<open>{"error":0,"tfa":{"mode":"auth-and-writes"}}\<close>, which has an \<^verbatim>\<open>error\<close> property, the
  result is true, since 0 is not truthy; and for the output \<^verbatim>\<open>null\<close>, which is valid
  JSON with no \<^verbatim>\<open>tfa\<close>, the call throws a TypeError at \<^verbatim>\<open>json.error\<close> instead of
  returning false.
\<close>

theorem getTokenIsRequired_counterexample:
  \<open>JSON_parse (edge_world prints_error_zero) ''{"error":0,"tfa":{"mode":"auth-and-writes"}}''
     = Some (JObject [(''error'', JNumber 0), (''tfa'', JObject [(''mode'', JString ''auth-and-writes'')])])
   \<and> property (Some (JObject [(''error'', JNumber 0),
                  (''tfa'', JObject [(''mode'', JString ''auth-and-writes'')])])) ''error''
       = Some (JNumber 0)
   \<and> fst (getTokenIsRequired (edge_world prints_error_zero)) = Inr True
   \<and> JSON_parse (edge_world prints_null) ''null'' = Some JNull
   \<and> fst (getTokenIsRequired (edge_world prints_null)) = Inl TypeError
   \<and> fst (getTokenIsRequired (edge_world prints_null)) \<noteq> Inr False\<close>
  by (simp add: getTokenIsRequired_def jsonParse_def getCorrectRegistry_def
        edge_world_def demo_world_def prints_null_def prints_error_zero_def edge_JSON_parse_def
        emit_def Let_def)

subsection \<open>The info query\<close>

text \<open>
  C6, as amended. An info query that prints nothing yields \<^verbatim>\<open>{error: {code: "E404"}}\<close>,
  and \<^verbatim>\<open>infoAllow404\<close> then answers \<open>published = False\<close> with an empty \<^verbatim>\<open>pkgInfo\<close>. For
  every result of \<^verbatim>\<open>getPackageInfo\<close> other than \<^verbatim>\<open>null\<close>: the error code \<^verbatim>\<open>E404\<close>
  gives \<open>published = False\<close> and an empty \<^verbatim>\<open>pkgInfo\<close>, after a warning; any other
  truthy \<^verbatim>\<open>error\<close> throws \<^verbatim>\<open>ExitError(1)\<close>; no truthy \<^verbatim>\<open>error\<close> gives
  \<open>published = True\<close> with the result as \<^verbatim>\<open>pkgInfo\<close>.
\<close>

theorem infoAllow404_cases:
  "(spawn w (trace w @
        [Enter npmRequestLimit, Log info [Text ''npm info '', Text (name packageJson)],
         Spawn ''npm'' [''info'', name packageJson, ''--registry'',
           getCorrectRegistry (Some packageJson) (npm_config_registry w), ''--json''] None None])
      = Inr [] \<longrightarrow>
      getPackageInfo packageJson w =
        (Inr (JObject [(''error'', JObject [(''code'', JString ''E404'')])]),
         emit (Leave npmRequestLimit)
           (emit (Spawn ''npm'' [''info'', name packageJson, ''--registry'',
                    getCorrectRegistry (Some packageJson) (npm_config_registry w), ''--json''] None None)
             (emit (Log info [Text ''npm info '', Text (name packageJson)])
               (emit (Enter npmRequestLimit) w))))
      \<and> infoAllow404 packageJson w =
          (Inr \<lparr>published = False, pkgInfo = JObject []\<rparr>,
           emit (Log warn [Text ''Received 404 for npm info '',
                  Text ([CHR 0x22] @ name packageJson @ [CHR 0x22])])
             (emit (Leave npmRequestLimit)
               (emit (Spawn ''npm'' [''info'', name packageJson, ''--registry'',
                        getCorrectRegistry (Some packageJson) (npm_config_registry w), ''--json''] None None)
                 (emit (Log info [Text ''npm info '', Text (name packageJson)])
                   (emit (Enter npmRequestLimit) w))))))
   \<and> (\<forall>found w1. getPackageInfo packageJson w = (Inr found, w1) \<and> found \<noteq> JNull \<longrightarrow>
        (property (property (Some found) ''error'') ''code'' = Some (JString ''E404'') \<longrightarrow>
           infoAllow404 packageJson w =
             (Inr \<lparr>published = False, pkgInfo = JObject []\<rparr>,
              emit (Log warn [Text ''Received 404 for npm info '',
                  Text ([CHR 0x22] @ name packageJson @ [CHR 0x22])]) w1))
      \<and> (truthy (property (Some found) ''error'')
           \<and> property (property (Some found) ''error'') ''code'' \<noteq> Some (JString ''E404'') \<longrightarrow>
           (\<exists>w2. infoAllow404 packageJson w = (Inl (ExitError 1), w2) \<and> extends w1 w2))
      \<and> (\<not> truthy (property (Some found) ''error'') \<longrightarrow>
           infoAllow404 packageJson w = (Inr \<lparr>published = True, pkgInfo = found\<rparr>, w1)))"
proof (intro conjI impI allI)
  assume blank: "spawn w (trace w @
        [Enter npmRequestLimit, Log info [Text ''npm info '', Text (name packageJson)],
         Spawn ''npm'' [''info'', name packageJson, ''--registry'',
           getCorrectRegistry (Some packageJson) (npm_config_registry w), ''--json''] None None])
      = Inr []"
  then show g: "getPackageInfo packageJson w =
        (Inr (JObject [(''error'', JObject [(''code'', JString ''E404'')])]),
         emit (Leave npmRequestLimit)
           (emit (Spawn ''npm'' [''info'', name packageJson, ''--registry'',
                    getCorrectRegistry (Some packageJson) (npm_config_registry w), ''--json''] None None)
             (emit (Log info [Text ''npm info '', Text (name packageJson)])
               (emit (Enter npmRequestLimit) w))))"
    by (simp add: getPackageInfo_def Let_def)
  show "infoAllow404 packageJson w =
          (Inr \<lparr>published = False, pkgInfo = JObject []\<rparr>,
           emit (Log warn [Text ''Received 404 for npm info '',
                  Text ([CHR 0x22] @ name packageJson @ [CHR 0x22])])
             (emit (Leave npmRequestLimit)
               (emit (Spawn ''npm'' [''info'', name packageJson, ''--registry'',
                        getCorrectRegistry (Some packageJson) (npm_config_registry w), ''--json''] None None)
                 (emit (Log info [Text ''npm info '', Text (name packageJson)])
                   (emit (Enter npmRequestLimit) w)))))"
    by (simp add: infoAllow404_def g)
next
  fix found w1
  assume a: "getPackageInfo packageJson w = (Inr found, w1) \<and> found \<noteq> JNull"
  then have gp: "getProp (Some found) ''error'' = Inr (property (Some found) ''error'')"
    by (simp add: getProp_not_null)
  {
    assume "property (property (Some found) ''error'') ''code'' = Some (JString ''E404'')"
    with a gp show "infoAllow404 packageJson w =
             (Inr \<lparr>published = False, pkgInfo = JObject []\<rparr>,
              emit (Log warn [Text ''Received 404 for npm info '',
                  Text ([CHR 0x22] @ name packageJson @ [CHR 0x22])]) w1)"
      by (simp add: infoAllow404_def)
  next
    assume "truthy (property (Some found) ''error'')
           \<and> property (property (Some found) ''error'') ''code'' \<noteq> Some (JString ''E404'')"
    with a gp show "\<exists>w2. infoAllow404 packageJson w = (Inl (ExitError 1), w2) \<and> extends w1 w2"
      by (simp add: infoAllow404_def Let_def)
  next
    assume n: "\<not> truthy (property (Some found) ''error'')"
    then have "property (property (Some found) ''error'') ''code'' = None"
      by (cases "property (Some found) ''error''") (auto elim: truthy.elims)
    with n a gp show "infoAllow404 packageJson w = (Inr \<lparr>published = True, pkgInfo = found\<rparr>, w1)"
      by (simp add: infoAllow404_def)
  }
qed

theorem infoAllow404_cases_witness:
  \<open>fst (infoAllow404 demo_package (demo_world False None (\<lambda>tr. Inr [])))
     = Inr \<lparr>published = False, pkgInfo = JObject []\<rparr>
   \<and> fst (infoAllow404 demo_package (demo_world False None (\<lambda>tr. Inr ''{"error":{"code":"E404"}}'')))
     = Inr \<lparr>published = False, pkgInfo = JObject []\<rparr>
   \<and> fst (infoAllow404 demo_package
          (demo_world False None (\<lambda>tr. Inr ''{"error":{"code":"E500","summary":"Internal Server Error"}}'')))
     = Inl (ExitError 1)
   \<and> fst (infoAllow404 demo_package (demo_world False None (\<lambda>tr. Inr ''{"name":"pkg","version":"1.0.0"}'')))
     = Inr \<lparr>published = True,
            pkgInfo = JObject [(''name'', JString ''pkg''), (''version'', JString ''1.0.0'')]\<rparr>\<close>
proof -
  let ?ev = "[Enter npmRequestLimit, Log info [Text ''npm info '', Text ''pkg''],
         Spawn ''npm'' [''info'', ''pkg'', ''--registry'', ''https://registry.npmjs.org'', ''--json''] None None]"
  have g: "getPackageInfo demo_package (demo_world False None (\<lambda>tr. Inr out)) =
      (if out = [] then Inr (JObject [(''error'', JObject [(''code'', JString ''E404'')])])
       else case demo_JSON_parse out of Some v \<Rightarrow> Inr v | None \<Rightarrow> Inl SyntaxError,
       (demo_world False None (\<lambda>tr. Inr out))
         \<lparr>trace := ?ev @ (if out \<noteq> [] \<and> demo_JSON_parse out = None
                          then [Log console_error [Text ''error parsing json:'', Text out]] else [])
                      @ [Leave npmRequestLimit]\<rparr>)" for out
    by (simp add: getPackageInfo_def jsonParse_def getCorrectRegistry_def demo_world_def
          demo_package_def emit_def Let_def split: option.splits)
  have n: "name demo_package = ''pkg''"
    "getCorrectRegistry (Some demo_package) (npm_config_registry (demo_world False None f))
       = ''https://registry.npmjs.org''" for f
    by (simp_all add: getCorrectRegistry_def demo_world_def demo_package_def)
  have b: "spawn (demo_world False None (\<lambda>tr. Inr [])) tr = Inr []" for tr
    by (simp add: demo_world_def)
  from infoAllow404_cases [of "demo_world False None (\<lambda>tr. Inr [])" demo_package] b
  have 1: "fst (infoAllow404 demo_package (demo_world False None (\<lambda>tr. Inr [])))
     = Inr \<lparr>published = False, pkgInfo = JObject []\<rparr>"
    by simp
  have p: \<open>demo_JSON_parse ''{"error":{"code":"E404"}}'' =
        Some (JObject [(''error'', JObject [(''code'', JString ''E404'')])])\<close>
     \<open>demo_JSON_parse ''{"error":{"code":"E500","summary":"Internal Server Error"}}'' =
        Some (JObject [(''error'', JObject [(''code'', JString ''E500''),
                    (''summary'', JString ''Internal Server Error'')])])\<close>
     \<open>demo_JSON_parse ''{"name":"pkg","version":"1.0.0"}'' =
        Some (JObject [(''name'', JString ''pkg''), (''version'', JString ''1.0.0'')])\<close>
    by (simp_all add: demo_JSON_parse_def)
  from infoAllow404_cases [of \<open>demo_world False None (\<lambda>tr. Inr ''{"error":{"code":"E404"}}'')\<close> demo_package]
  have 2: \<open>fst (infoAllow404 demo_package (demo_world False None (\<lambda>tr. Inr ''{"error":{"code":"E404"}}'')))
     = Inr \<lparr>published = False, pkgInfo = JObject []\<rparr>\<close>
    by (simp add: g p)
  from infoAllow404_cases
    [of \<open>demo_world False None (\<lambda>tr. Inr ''{"error":{"code":"E500","summary":"Internal Server Error"}}'')\<close>
        demo_package]
  have 3: \<open>fst (infoAllow404 demo_package
          (demo_world False None (\<lambda>tr. Inr ''{"error":{"code":"E500","summary":"Internal Server Error"}}'')))
     = Inl (ExitError 1)\<close>
    by (auto simp add: g p)
  from infoAllow404_cases
    [of \<open>demo_world False None (\<lambda>tr. Inr ''{"name":"pkg","version":"1.0.0"}'')\<close> demo_package]
  have 4: \<open>fst (infoAllow404 demo_package (demo_world False None (\<lambda>tr. Inr ''{"name":"pkg","version":"1.0.0"}'')))
     = Inr \<lparr>published = True,
            pkgInfo = JObject [(''name'', JString ''pkg''), (''version'', JString ''1.0.0'')]\<rparr>\<close>
    by (simp add: g p)
  from 1 2 3 4 show ?thesis by simp
qed

text \<open>
  C6 as it is stated fails at the result \<^verbatim>\<open>null\<close>, which \<^verbatim>\<open>getPackageInfo\<close> returns when
  the info query prints \<^verbatim>\<open>null\<close>: it has no \<^verbatim>\<open>error\<close>, yet \<^verbatim>\<open>infoAllow404\<close> throws a
  TypeError at \<^verbatim>\<open>pkgInfo.error\<close> instead of returning \<open>published = True\<close>.
\<close>

theorem infoAllow404_null_counterexample:
  "fst (getPackageInfo demo_package (edge_world prints_null)) = Inr JNull
   \<and> property (Some JNull) ''error'' = None
   \<and> fst (infoAllow404 demo_package (edge_world prints_null)) = Inl TypeError
   \<and> fst (infoAllow404 demo_package (edge_world prints_null))
       \<noteq> Inr \<lparr>published = True, pkgInfo = JNull\<rparr>"
  by (simp add: infoAllow404_def getPackageInfo_def jsonParse_def getCorrectRegistry_def
        edge_world_def demo_world_def prints_null_def edge_JSON_parse_def demo_package_def
        emit_def Let_def)

subsection \<open>The gates around publish\<close>

text \<open>
  C9. Gates: a gate of capacity \<open>pLimit g\<close> never has more than \<open>pLimit g\<close> units executing,
  whatever is submitted to it and whatever settles; of a burst of units submitted to a
  new gate the first \<open>pLimit g\<close> execute and the others wait, in their order; and the
  capacities are 40 for the info gate, 10 for the publish gate and 1 for the prompt
  gate. \<^verbatim>\<open>publish\<close> enters the info gate, then the publish gate, runs \<^verbatim>\<open>internalPublish\<close>
  there on the state as the other callers have left it, and leaves the publish gate,
  then the info gate: it returns exactly when \<^verbatim>\<open>internalPublish\<close> does.
  \<^verbatim>\<open>internalPublish\<close> itself, however often it tries again, never enters or leaves
  either of the two gates, and neither does any single pass of it: a retry is not queued
  again.
\<close>

theorem publish_gates:
  "length (executing (gate_run (pLimit g) calls)) \<le> pLimit g
   \<and> gate_run (pLimit g) (map Submit units)
       = \<lparr>slots = pLimit g, executing = take (pLimit g) units, queued = drop (pLimit g) units\<rparr>
   \<and> pLimit npmRequestLimit = 40 \<and> pLimit npmPublishLimit = 10 \<and> pLimit otpAskLimit = 1
   \<and> publish pkgName opts st w =
       map_option
         (\<lambda>(r, st', w3). (r, st', emit (Leave npmRequestLimit) (emit (Leave npmPublishLimit) w3)))
         (internalPublish pkgName opts
            (whileQueued w (trace w @ [Enter npmRequestLimit, Enter npmPublishLimit])
               (whileQueued w (trace w @ [Enter npmRequestLimit]) st))
            (emit (Enter npmPublishLimit) (emit (Enter npmRequestLimit) w)))
   \<and> (\<forall>r st' w'. publish pkgName opts st w = Some (r, st', w') \<longrightarrow>
        (\<exists>evs. trace w' = trace w @ [Enter npmRequestLimit, Enter npmPublishLimit] @ evs
                          @ [Leave npmPublishLimit, Leave npmRequestLimit]
           \<and> \<not> (\<exists>e \<in> set evs. publish_gate_event e)))
   \<and> (\<forall>r st' w'. internalPublish pkgName opts st w = Some (r, st', w') \<longrightarrow>
        (\<exists>evs. trace w' = trace w @ evs \<and> \<not> (\<exists>e \<in> set evs. publish_gate_event e)))
   \<and> (\<forall>r st' w'. spawnPublish opts st w = (r, st', w') \<longrightarrow>
        (\<exists>evs. trace w' = trace w @ evs \<and> \<not> (\<exists>e \<in> set evs. publish_gate_event e)))"
proof (intro conjI allI impI)
  show "length (executing (gate_run (pLimit g) calls)) \<le> pLimit g"
    by (rule gate_run_bound)
  show "gate_run (pLimit g) (map Submit units)
       = \<lparr>slots = pLimit g, executing = take (pLimit g) units, queued = drop (pLimit g) units\<rparr>"
    by (rule gate_run_burst)
  show "pLimit npmRequestLimit = 40" "pLimit npmPublishLimit = 10" "pLimit otpAskLimit = 1"
    by simp_all
  show eq: "publish pkgName opts st w =
       map_option
         (\<lambda>(r, st', w3). (r, st', emit (Leave npmRequestLimit) (emit (Leave npmPublishLimit) w3)))
         (internalPublish pkgName opts
            (whileQueued w (trace w @ [Enter npmRequestLimit, Enter npmPublishLimit])
               (whileQueued w (trace w @ [Enter npmRequestLimit]) st))
            (emit (Enter npmPublishLimit) (emit (Enter npmRequestLimit) w)))"
    by (simp add: publish_def Let_def)
  {
    fix r st' w'
    assume p: "publish pkgName opts st w = Some (r, st', w')"
    let ?w2 = "emit (Enter npmPublishLimit) (emit (Enter npmRequestLimit) w)"
    from p eq obtain st2 w3 where
      i: "internalPublish pkgName opts st2 ?w2 = Some (r, st', w3)"
      and w': "w' = emit (Leave npmRequestLimit) (emit (Leave npmPublishLimit) w3)"
      by auto
    from internalPublish_ungated [OF i] obtain evs where
      evs: "trace w3 = trace ?w2 @ evs" "\<not> (\<exists>e \<in> set evs. publish_gate_event e)"
      by (auto simp add: ungated_def)
    from w' evs
    show "\<exists>evs. trace w' = trace w @ [Enter npmRequestLimit, Enter npmPublishLimit] @ evs
                          @ [Leave npmPublishLimit, Leave npmRequestLimit]
           \<and> \<not> (\<exists>e \<in> set evs. publish_gate_event e)"
      by (intro exI [of _ evs]) simp
  next
    fix r st' w'
    assume "internalPublish pkgName opts st w = Some (r, st', w')"
    from internalPublish_ungated [OF this]
    show "\<exists>evs. trace w' = trace w @ evs \<and> \<not> (\<exists>e \<in> set evs. publish_gate_event e)"
      by (simp add: ungated_def)
  next
    fix r st' w'
    assume "spawnPublish opts st w = (r, st', w')"
    from spawnPublish_ungated [OF this]
    show "\<exists>evs. trace w' = trace w @ evs \<and> \<not> (\<exists>e \<in> set evs. publish_gate_event e)"
      by (simp add: ungated_def)
  }
qed

theorem publish_gates_witness:
  \<open>publish ''pkg'' demo_opts \<lparr>token = Some ''111111'', isRequired = Resolved True\<rparr>
      (demo_world False None otp_registry)
    = Some (Inr \<lparr>published = True\<rparr>, \<lparr>token = Some ''222222'', isRequired = Resolved True\<rparr>,
        (demo_world False None otp_registry)
          \<lparr>trace :=
             [Enter npmRequestLimit, Enter npmPublishLimit,
              Spawn ''npm'' [''publish'', ''/repo/pkg'', ''--json'', ''--access'', ''public'',
                 ''--tag'', ''latest'', ''--otp'', ''111111''] None (Some ''https://registry.npmjs.org''),
              Enter otpAskLimit,
              Log info [Text ''This operation requires a one-time password from your authenticator.''],
              AskQuestion ''Enter one-time password:'',
              Leave otpAskLimit,
              Spawn ''npm'' [''publish'', ''/repo/pkg'', ''--json'', ''--access'', ''public'',
                 ''--tag'', ''latest'', ''--otp'', ''222222''] None (Some ''https://registry.npmjs.org''),
              Leave npmPublishLimit, Leave npmRequestLimit]\<rparr>)
   \<and> (\<exists>evs.
       [Enter npmRequestLimit, Enter npmPublishLimit,
        Spawn ''npm'' [''publish'', ''/repo/pkg'', ''--json'', ''--access'', ''public'',
           ''--tag'', ''latest'', ''--otp'', ''111111''] None (Some ''https://registry.npmjs.org''),
        Enter otpAskLimit,
        Log info [Text ''This operation requires a one-time password from your authenticator.''],
        AskQuestion ''Enter one-time password:'',
        Leave otpAskLimit,
        Spawn ''npm'' [''publish'', ''/repo/pkg'', ''--json'', ''--access'', ''public'',
           ''--tag'', ''latest'', ''--otp'', ''222222''] None (Some ''https://registry.npmjs.org''),
        Leave npmPublishLimit, Leave npmRequestLimit]
       = [Enter npmRequestLimit, Enter npmPublishLimit] @ evs @ [Leave npmPublishLimit, Leave npmRequestLimit]
       \<and> \<not> (\<exists>e \<in> set evs. publish_gate_event e))
   \<and> length (executing (gate_run (pLimit otpAskLimit) [Submit ''a'', Submit ''b'', Settle ''a'', Submit ''c''])) \<le> 1
   \<and> gate_run (pLimit otpAskLimit) [Submit ''a'', Submit ''b'', Settle ''a'', Submit ''c'']
       = \<lparr>slots = 1, executing = [''b''], queued = [''c'']\<rparr>
   \<and> gate_run (pLimit npmPublishLimit) (map Submit [0 ..< 25])
       = \<lparr>slots = 10, executing = [0 ..< 10], queued = [10 ..< 25]\<rparr>\<close>
proof -
  note T = publish_gates [of otpAskLimit "[Submit ''a'', Submit ''b'', Settle ''a'', Submit ''c'']"
             "[]" "''pkg''" demo_opts "\<lparr>token = Some ''111111'', isRequired = Resolved True\<rparr>"
             "demo_world False None otp_registry"]
  note U = publish_gates [of npmPublishLimit "[]" "[0 ..< 25]"
             "''pkg''" demo_opts "\<lparr>token = Some ''111111'', isRequired = Resolved True\<rparr>"
             "demo_world False None otp_registry"]
  from T [THEN conjunct2, THEN conjunct2, THEN conjunct2, THEN conjunct2, THEN conjunct2,
          THEN conjunct2, THEN conjunct1, rule_format, OF publish_otp_session]
  obtain evs where
    "trace ((demo_world False None otp_registry)
          \<lparr>trace :=
             [Enter npmRequestLimit, Enter npmPublishLimit,
              Spawn ''npm'' [''publish'', ''/repo/pkg'', ''--json'', ''--access'', ''public'',
                 ''--tag'', ''latest'', ''--otp'', ''111111''] None (Some ''https://registry.npmjs.org''),
              Enter otpAskLimit,
              Log info [Text ''This operation requires a one-time password from your authenticator.''],
              AskQuestion ''Enter one-time password:'',
              Leave otpAskLimit,
              Spawn ''npm'' [''publish'', ''/repo/pkg'', ''--json'', ''--access'', ''public'',
                 ''--tag'', ''latest'', ''--otp'', ''222222''] None (Some ''https://registry.npmjs.org''),
              Leave npmPublishLimit, Leave npmRequestLimit]\<rparr>)
       = trace (demo_world False None otp_registry)
           @ [Enter npmRequestLimit, Enter npmPublishLimit] @ evs
           @ [Leave npmPublishLimit, Leave npmRequestLimit]"
    and "\<not> (\<exists>e \<in> set evs. publish_gate_event e)"
    by blast
  then have 1: "\<exists>evs.
       [Enter npmRequestLimit, Enter npmPublishLimit,
        Spawn ''npm'' [''publish'', ''/repo/pkg'', ''--json'', ''--access'', ''public'',
           ''--tag'', ''latest'', ''--otp'', ''111111''] None (Some ''https://registry.npmjs.org''),
        Enter otpAskLimit,
        Log info [Text ''This operation requires a one-time password from your authenticator.''],
        AskQuestion ''Enter one-time password:'',
        Leave otpAskLimit,
        Spawn ''npm'' [''publish'', ''/repo/pkg'', ''--json'', ''--access'', ''public'',
           ''--tag'', ''latest'', ''--otp'', ''222222''] None (Some ''https://registry.npmjs.org''),
        Leave npmPublishLimit, Leave npmRequestLimit]
       = [Enter npmRequestLimit, Enter npmPublishLimit] @ evs @ [Leave npmPublishLimit, Leave npmRequestLimit]
       \<and> \<not> (\<exists>e \<in> set evs. publish_gate_event e)"
    by (intro exI [of _ evs]) (simp add: demo_world_def)
  from T [THEN conjunct1]
       T [THEN conjunct2, THEN conjunct2, THEN conjunct2, THEN conjunct2, THEN conjunct1]
  have 2: "length (executing (gate_run (pLimit otpAskLimit)
             [Submit ''a'', Submit ''b'', Settle ''a'', Submit ''c''])) \<le> 1"
    by simp
  have 3: "gate_run (pLimit otpAskLimit) [Submit ''a'', Submit ''b'', Settle ''a'', Submit ''c'']
       = \<lparr>slots = 1, executing = [''b''], queued = [''c'']\<rparr>"
    by (simp add: gate_run_def new_gate_def)
  from U [THEN conjunct2, THEN conjunct1]
       U [THEN conjunct2, THEN conjunct2, THEN conjunct2, THEN conjunct1]
  have 4: "gate_run (pLimit npmPublishLimit) (map Submit [0 ..< 25])
       = \<lparr>slots = 10, executing = [0 ..< 10], queued = [10 ..< 25]\<rparr>"
    by (simp add: take_upt drop_upt)
  from publish_otp_session 1 2 3 4 show ?thesis by blast
qed

end
